theory Spec2Isabelle
  imports Main "HOL-Library.Multiset" "HOL-Library.Sublist"
begin

section \<open>The three generators of the repository\<close>

text \<open>
  The repository holds three generations of one command-line generator that turns
  the features found by the Polymer analyzer into TypeScript declarations:
  \<^item> \<^verbatim>\<open>src/index.js\<close>: one interface per element, written to one file or to one
    file per element; its definitions carry the suffix \<open>_idx\<close>;
  \<^item> \<^verbatim>\<open>src/unnamed/part_000\<close>: the per-file generator (\<open>toModulesMap\<close>,
    \<open>buildModules\<close>, \<open>splitModulesToFiles\<close>); suffix \<open>_p0\<close> where a name is shared;
  \<^item> \<^verbatim>\<open>src/unnamed/part_001\<close>: the single-file generator (\<open>parseType\<close>,
    \<open>printJSdoc\<close>, \<open>printBehavior\<close>, ...); suffix \<open>_p1\<close> where a name is shared.

  JavaScript strings are modelled as \<^typ>\<open>string\<close>: a character stands for the
  UTF-16 code unit of the same number, so the model covers the strings whose code
  units lie below 0x100. A value that may be \<^verbatim>\<open>undefined\<close> is an
  \<^typ>\<open>'a option\<close>; a \<^verbatim>\<open>TypeError\<close> raised by a property access or a method call
  on \<^verbatim>\<open>undefined\<close> is the value \<open>Inl TypeError\<close> of a result type \<open>error + 'a\<close>.
\<close>

datatype error = TypeError

subsection \<open>JavaScript string primitives\<close>

text \<open>The class \<^verbatim>\<open>\s\<close> of regular expressions, which is also what
  \<^verbatim>\<open>trim\<close> removes: below 0x100 these are tab, line feed, vertical tab, form
  feed, carriage return, space and the no-break space U+00A0.\<close>

definition isSpace :: "char \<Rightarrow> bool" where
  "isSpace c =
     (c \<in> set [CHR 0x09, CHR 0x0A, CHR 0x0B, CHR 0x0C, CHR 0x0D, CHR '' '', CHR 0xA0])"

text \<open>The line terminators, which \<^verbatim>\<open>.\<close> does not match: below 0x100 these are
  line feed and carriage return.\<close>

definition isLineTerminator :: "char \<Rightarrow> bool" where
  "isLineTerminator c = (c = CHR 0x0A \<or> c = CHR 0x0D)"

text \<open>The class \<^verbatim>\<open>\w\<close>: letters, digits and the underscore.\<close>

definition isWordChar :: "char \<Rightarrow> bool" where
  "isWordChar c =
     (let n = (of_char c :: nat)
      in (48 \<le> n \<and> n \<le> 57) \<or> (65 \<le> n \<and> n \<le> 90) \<or> n = 95 \<or> (97 \<le> n \<and> n \<le> 122))"

text \<open>\<^verbatim>\<open>toUpperCase\<close> on a string of one code unit; the result is a string,
  since the upper-case form may have several characters. Below 0x100 the letters
  with an upper-case form are \<open>a\<close> to \<open>z\<close>, U+00E0 to U+00F6 and U+00F8 to
  U+00FE, whose forms lie 0x20 below them, and the sharp s U+00DF, whose form is
  \<open>SS\<close>. The forms of the micro sign U+00B5 and of U+00FF are U+039C and U+0178;
  they cannot be written in a string of this model, which keeps these two
  characters as they are.\<close>

definition toUpperCase :: "char \<Rightarrow> string" where
  "toUpperCase c =
     (let n = (of_char c :: nat)
      in if (97 \<le> n \<and> n \<le> 122) \<or> (224 \<le> n \<and> n \<le> 246) \<or> (248 \<le> n \<and> n \<le> 254)
         then [char_of (n - 32)]
         else if n = 223 then ''SS''
         else [c])"

text \<open>\<^verbatim>\<open>s.replace(/\s*$/, "")\<close>: the trailing run of white space is removed.\<close>

definition trimEnd :: "string \<Rightarrow> string" where
  "trimEnd s = rev (dropWhile isSpace (rev s))"

text \<open>\<^verbatim>\<open>s.trim()\<close>.\<close>

definition trim :: "string \<Rightarrow> string" where
  "trim s = trimEnd (dropWhile isSpace s)"

text \<open>\<^verbatim>\<open>s.split(sep)\<close> for a one-character separator; the result is never
  empty. \<open>splitLines\<close> is \<^verbatim>\<open>s.split("\n")\<close>.\<close>

fun splitOn :: "char \<Rightarrow> string \<Rightarrow> string list" where
  "splitOn sep [] = [[]]"
| "splitOn sep (c # cs) =
     (if c = sep then [] # splitOn sep cs
      else (case splitOn sep cs of
              [] \<Rightarrow> [[c]]
            | l # ls \<Rightarrow> (c # l) # ls))"

definition splitLines :: "string \<Rightarrow> string list" where
  "splitLines s = splitOn (CHR 0x0A) s"

text \<open>\<^verbatim>\<open>xs.join(sep)\<close>.\<close>

fun join :: "string \<Rightarrow> string list \<Rightarrow> string" where
  "join sep [] = []"
| "join sep [x] = x"
| "join sep (x # y # ys) = x @ sep @ join sep (y # ys)"

text \<open>JavaScript truthiness of a string that may be undefined: \<^verbatim>\<open>undefined\<close>,
  \<^verbatim>\<open>null\<close> and the empty string are falsy.\<close>

definition truthy :: "string option \<Rightarrow> bool" where
  "truthy v = (case v of None \<Rightarrow> False | Some s \<Rightarrow> s \<noteq> [])"

text \<open>Running a function that may throw over an array (\<^verbatim>\<open>xs.map(f)\<close>): the first
  exception ends the loop.\<close>

fun mapE :: "('a \<Rightarrow> error + 'b) \<Rightarrow> 'a list \<Rightarrow> error + 'b list" where
  "mapE f [] = Inr []"
| "mapE f (x # xs) =
     (case f x of
        Inl e \<Rightarrow> Inl e
      | Inr y \<Rightarrow> (case mapE f xs of Inl e \<Rightarrow> Inl e | Inr ys \<Rightarrow> Inr (y # ys)))"

subsection \<open>Identifier casing\<close>

text \<open>
  All three generators derive the declared name with
  \<^verbatim>\<open>name.replace(/(?:^|-)(.)/g, (_, m) => m.toUpperCase())\<close>.
  At position 0 the alternative \<^verbatim>\<open>^\<close> is tried first and consumes the first
  character (unless it is a line terminator); from then on only a hyphen followed by a
  character other than a line terminator matches, and the search resumes after the
  two characters consumed.
\<close>

fun camelRest :: "string \<Rightarrow> string" where
  "camelRest [] = []"
| "camelRest [c] = [c]"
| "camelRest (c # d # ds) =
     (if c = CHR ''-'' \<and> \<not> isLineTerminator d then toUpperCase d @ camelRest ds
      else c # camelRest (d # ds))"

definition camelName :: "string \<Rightarrow> string" where
  "camelName s =
     (case s of
        [] \<Rightarrow> []
      | c # cs \<Rightarrow> (if isLineTerminator c then c # camelRest cs
                  else toUpperCase c @ camelRest cs))"

subsection \<open>Type mapping\<close>

text \<open>\<^verbatim>\<open>parseType\<close> of part_001. The two marker tests are
  \<^verbatim>\<open>/^[!?]/\<close> and \<^verbatim>\<open>/=$/\<close>; \<open>stripMarkers\<close> is the value of \<^verbatim>\<open>type\<close>
  after the two \<^verbatim>\<open>slice\<close> steps.\<close>

definition stripLeading :: "string \<Rightarrow> string" where
  "stripLeading t =
     (case t of
        [] \<Rightarrow> []
      | c # cs \<Rightarrow> (if c = CHR ''!'' \<or> c = CHR ''?'' then cs else c # cs))"

definition stripTrailing :: "string \<Rightarrow> string" where
  "stripTrailing t = (if t \<noteq> [] \<and> last t = CHR ''='' then butlast t else t)"

definition stripMarkers :: "string \<Rightarrow> string" where
  "stripMarkers t = stripTrailing (stripLeading t)"

definition knownTypes :: "string list" where
  "knownTypes = [''Date'', ''string'', ''boolean'', ''number'', ''Symbol'']"

definition parseType :: "string \<Rightarrow> bool \<Rightarrow> string" where
  "parseType t forceArray =
     (let t1 = stripMarkers t;
          t2 = (if t1 = ''Array'' then t1 @ ''<any>''
                else if t1 \<notin> set knownTypes then ''any''
                else t1)
      in if forceArray then ''Array<'' @ t2 @ ''>'' else t2)"

text \<open>\<^verbatim>\<open>parseType\<close> called with a type that may be undefined: both regular
  expressions test the string \<^verbatim>\<open>"undefined"\<close> and fail, and \<^verbatim>\<open>undefined\<close> is
  neither \<^verbatim>\<open>"Array"\<close> nor in the list.\<close>

definition parseTypeU :: "string option \<Rightarrow> bool \<Rightarrow> string" where
  "parseTypeU t forceArray =
     (case t of
        None \<Rightarrow> (if forceArray then ''Array<any>'' else ''any'')
      | Some s \<Rightarrow> parseType s forceArray)"

text \<open>\<^verbatim>\<open>cast\<close> of part_000.\<close>

record castResult =
  returnType :: string
  methodParams :: "string list option"

definition primitives :: "string list" where
  "primitives = [''string'', ''number'', ''boolean'']"

definition polymerVoidMethods :: "string list" where
  "polymerVoidMethods =
     [''created'', ''ready'', ''attached'', ''detached'', ''attributeChanged'',
      ''connectedCallback'', ''disconnectedCallback'', ''attributeChangedCallback'',
      ''updateStyles'', ''linkPaths'', ''unlinkPaths'', ''notifySplices'', ''set'',
      ''setProperties'']"

definition cast :: "string \<Rightarrow> string option \<Rightarrow> string list option \<Rightarrow> castResult" where
  "cast name t params =
     (case t of
        None \<Rightarrow> \<lparr>returnType = ''any'', methodParams = None\<rparr>
      | Some ty \<Rightarrow>
          if ty \<in> set primitives then \<lparr>returnType = ty, methodParams = None\<rparr>
          else if ty = ''Function'' then
            \<lparr>returnType = (if name \<in> set polymerVoidMethods then ''void'' else ''any''),
             methodParams =
               Some (map (\<lambda>p. p @ '': any'') (case params of None \<Rightarrow> [] | Some ps \<Rightarrow> ps))\<rparr>
          else \<lparr>returnType = (if ty = ''Array'' then ''Array<any>'' else ''any''),
                methodParams = None\<rparr>)"


section \<open>The single-file generator (part_001)\<close>

subsection \<open>Input records of the analyzer\<close>

text \<open>A documentation tag: \<^verbatim>\<open>tag.type\<close> may be absent (\<open>None\<close>) or an object
  whose \<^verbatim>\<open>name\<close> may be absent (\<open>Some None\<close>).\<close>

record tag =
  tag_title :: string
  tag_type :: "string option option"
  tag_name :: "string option"
  tag_description :: "string option"

record jsdoc =
  jd_description :: "string option"
  jd_tags :: "tag list option"

record param =
  pa_name :: string
  pa_type :: "string option"

text \<open>A method: \<^verbatim>\<open>method.return\<close> may be absent (\<open>None\<close>) or an object whose
  \<^verbatim>\<open>type\<close> may be absent (\<open>Some None\<close>).\<close>

record method_p1 =
  m_name :: string
  m_privacy :: string
  m_params :: "param list option"
  m_return :: "string option option"
  m_jsdoc :: "jsdoc option"

record property_p1 =
  pr_name :: string
  pr_privacy :: string
  pr_type :: "string option"
  pr_jsdoc :: "jsdoc option"

text \<open>A feature: \<open>f_kinds\<close> and \<open>f_identifiers\<close> list the members of the two sets in
  iteration order; \<open>f_sourceRange\<close> is \<^verbatim>\<open>feature.sourceRange.file\<close>, \<open>None\<close> when
  the feature has no source range.\<close>

record feature_p1 =
  f_kinds :: "string list"
  f_identifiers :: "string list"
  f_jsdoc :: "jsdoc option"
  f_sourceRange :: "string option"
  f_methods :: "method_p1 list option"
  f_properties :: "property_p1 list option"

subsection \<open>Indentation and documentation comments\<close>

text \<open>\<^verbatim>\<open>indent(tabs)\<close> takes a number of spaces or a prefix string, and is applied to
  a string or used as a template tag; in both uses the chunks and values are first
  concatenated, so the model takes the concatenated text.\<close>

datatype tabs = TabNumber nat | TabString string

definition indentString :: "tabs \<Rightarrow> string" where
  "indentString t = (case t of TabNumber n \<Rightarrow> replicate n (CHR '' '') | TabString s \<Rightarrow> s)"

definition isNumber :: "tabs \<Rightarrow> bool" where
  "isNumber t = (case t of TabNumber n \<Rightarrow> True | TabString s \<Rightarrow> False)"

definition indentLine :: "tabs \<Rightarrow> string \<Rightarrow> string" where
  "indentLine t line =
     (if list_all isSpace line \<and> isNumber t then [] else trimEnd (indentString t @ line))"

definition indent :: "tabs \<Rightarrow> string \<Rightarrow> string" where
  "indent t src = join ''\<newline>'' (map (indentLine t) (splitLines src))"

text \<open>The filter of \<^verbatim>\<open>printJSdoc\<close>:
  \<^verbatim>\<open>tag.title !== "type" || tag.type.name\<close>.\<close>

definition keepTag :: "tag \<Rightarrow> error + bool" where
  "keepTag t =
     (if tag_title t \<noteq> ''type'' then Inr True
      else (case tag_type t of None \<Rightarrow> Inl TypeError | Some n \<Rightarrow> Inr (truthy n)))"

fun filterE :: "('a \<Rightarrow> error + bool) \<Rightarrow> 'a list \<Rightarrow> error + 'a list" where
  "filterE f [] = Inr []"
| "filterE f (x # xs) =
     (case f x of
        Inl e \<Rightarrow> Inl e
      | Inr b \<Rightarrow> (case filterE f xs of
                   Inl e \<Rightarrow> Inl e
                 | Inr ys \<Rightarrow> Inr (if b then x # ys else ys)))"

text \<open>One tag line. A part that is undefined or empty is dropped by
  \<^verbatim>\<open>.filter((t) => !!t)\<close>, so an undefined part is written as the empty string.\<close>

definition printTag :: "tag \<Rightarrow> string" where
  "printTag t =
     ''\<newline> * @'' @
     join '' ''
       (filter (\<lambda>part. part \<noteq> [])
          ([tag_title t] @
           (case tag_type t of
              Some (Some n) \<Rightarrow> (if n \<noteq> [] then [''{'' @ n @ ''}''] else [])
            | _ \<Rightarrow> []) @
           [case tag_name t of None \<Rightarrow> [] | Some n \<Rightarrow> n,
            trim (case tag_description t of None \<Rightarrow> [] | Some d \<Rightarrow> d)]))"

definition nonEmptyTags :: "jsdoc \<Rightarrow> error + tag list option" where
  "nonEmptyTags jd =
     (case jd_tags jd of
        None \<Rightarrow> Inr None
      | Some ts \<Rightarrow> (case filterE keepTag ts of Inl e \<Rightarrow> Inl e | Inr r \<Rightarrow> Inr (Some r)))"

text \<open>\<^verbatim>\<open>printJSdoc({ description, tags })\<close>: destructuring \<^verbatim>\<open>undefined\<close> throws;
  so do \<^verbatim>\<open>description.trim()\<close> on an undefined description and
  \<^verbatim>\<open>nonEmptyTags.map\<close> on undefined tags, both reached once the condition holds.\<close>

definition printJSdoc :: "jsdoc option \<Rightarrow> error + string" where
  "printJSdoc doc =
     (case doc of
        None \<Rightarrow> Inl TypeError
      | Some jd \<Rightarrow>
          (case nonEmptyTags jd of
             Inl e \<Rightarrow> Inl e
           | Inr net \<Rightarrow>
               if truthy (jd_description jd) \<or> (case net of None \<Rightarrow> False | Some ts \<Rightarrow> ts \<noteq> [])
               then (case jd_description jd of
                       None \<Rightarrow> Inl TypeError
                     | Some d \<Rightarrow>
                         (case net of
                            None \<Rightarrow> Inl TypeError
                          | Some ts \<Rightarrow>
                              Inr (''\<newline>/**'' @ indent (TabString '' * '') (trim d) @
                                   (if trim d \<noteq> [] \<and> ts \<noteq> [] then ''\<newline> *'' else []) @
                                   concat (map printTag ts) @
                                   ''\<newline> */'')))
               else Inr []))"

subsection \<open>Members\<close>

definition printParam :: "param \<Rightarrow> string" where
  "printParam p = pa_name p @ '': '' @ parseTypeU (pa_type p) (prefix ''...'' (pa_name p))"

definition printMethod :: "method_p1 \<Rightarrow> error + string" where
  "printMethod m =
     (let returnType = (case m_return m of None \<Rightarrow> [] | Some t \<Rightarrow> '': '' @ parseTypeU t False)
      in case printJSdoc (m_jsdoc m) of
           Inl e \<Rightarrow> Inl e
         | Inr JSDoc \<Rightarrow>
             (case m_params m of
                None \<Rightarrow> Inl TypeError
              | Some ps \<Rightarrow>
                  Inr (indent (TabNumber 4)
                         (JSDoc @ ''\<newline>'' @ m_name m @ ''('' @
                          join '', '' (map printParam ps) @ '')'' @ returnType @ '';''))))"

definition printProperty :: "property_p1 \<Rightarrow> error + string" where
  "printProperty p =
     (case printJSdoc (pr_jsdoc p) of
        Inl e \<Rightarrow> Inl e
      | Inr JSDoc \<Rightarrow>
          (case pr_type p of
             None \<Rightarrow> Inl TypeError
           | Some t \<Rightarrow>
               Inr (indent (TabNumber 4)
                      (JSDoc @ ''\<newline>'' @ pr_name p @ (if prefix ''?'' t then ''?'' else []) @
                       '': '' @ parseType t False @ '';''))))"


subsection \<open>Filter and classifier\<close>

definition supportedFeatures_p1 :: "string list" where
  "supportedFeatures_p1 = [''element'', ''element-mixin'', ''behavior'']"

definition filterFeatures_p1 :: "feature_p1 \<Rightarrow> bool" where
  "filterFeatures_p1 feature =
     list_ex (\<lambda>key. key \<in> set supportedFeatures_p1) (f_kinds feature)"

text \<open>The descriptor returned by \<^verbatim>\<open>getFeatureDetails\<close>; \<open>d_methods\<close> and
  \<open>d_properties\<close> hold the rendered members and are absent when the feature has no
  such collection.\<close>

record descriptor_p1 =
  d_namespace :: "string option"
  d_name :: string
  d_jsDoc :: jsdoc
  d_kinds :: "string list"
  d_fileName :: string
  d_module :: string
  d_methods :: "string list option"
  d_properties :: "string list option"

text \<open>\<^verbatim>\<open>(identifier || "").match(/(?:([\w]+)\.)?(.*)/)\<close>: the match is at position 0;
  the namespace group takes the longest leading run of word characters when a dot
  follows it, and the identifier is the rest of that line.\<close>

definition matchIdentifier :: "string \<Rightarrow> string option \<times> string" where
  "matchIdentifier s =
     (let w = takeWhile isWordChar s; r = dropWhile isWordChar s
      in if w \<noteq> [] \<and> r \<noteq> [] \<and> hd r = CHR ''.''
         then (Some w, takeWhile (\<lambda>c. \<not> isLineTerminator c) (tl r))
         else (None, takeWhile (\<lambda>c. \<not> isLineTerminator c) s))"

definition firstIdentifier :: "string list \<Rightarrow> string" where
  "firstIdentifier ids = (case ids of [] \<Rightarrow> [] | i # _ \<Rightarrow> i)"

text \<open>\<^verbatim>\<open>path.replace(new RegExp("(bower_components|node_modules)\\/"), ...)\<close>: the
  expression is not anchored, so the leftmost occurrence of either root followed by a
  slash is rewritten, wherever it stands in the path.\<close>

fun replaceRepo :: "string \<Rightarrow> string" where
  "replaceRepo [] = []"
| "replaceRepo (c # cs) =
     (if prefix ''bower_components/'' (c # cs) then ''bower:'' @ drop 17 (c # cs)
      else if prefix ''node_modules/'' (c # cs) then ''npm:'' @ drop 13 (c # cs)
      else c # replaceRepo cs)"

definition namespaceTag :: "string \<Rightarrow> tag" where
  "namespaceTag ns =
     \<lparr>tag_title = ''namespace'', tag_type = None, tag_name = Some ns, tag_description = None\<rparr>"

definition withNamespaceTag :: "string option \<Rightarrow> jsdoc \<Rightarrow> jsdoc" where
  "withNamespaceTag namespace jd =
     (case namespace of
        None \<Rightarrow> jd
      | Some ns \<Rightarrow>
          if ns = [] then jd
          else jd\<lparr>jd_tags :=
                    Some ((case jd_tags jd of None \<Rightarrow> [] | Some ts \<Rightarrow> ts) @ [namespaceTag ns])\<rparr>)"

definition publicMethods :: "method_p1 list \<Rightarrow> method_p1 list" where
  "publicMethods ms = filter (\<lambda>mt. m_privacy mt = ''public'') ms"

definition publicProperties :: "property_p1 list \<Rightarrow> property_p1 list" where
  "publicProperties ps =
     filter (\<lambda>pr. pr_type pr \<noteq> Some ''Conditional'')
       (filter (\<lambda>pr. pr_privacy pr = ''public'') ps)"

definition renderedMethods :: "method_p1 list option \<Rightarrow> error + string list option" where
  "renderedMethods ms =
     (case ms of
        None \<Rightarrow> Inr None
      | Some l \<Rightarrow> (case mapE printMethod (publicMethods l) of
                    Inl e \<Rightarrow> Inl e
                  | Inr r \<Rightarrow> Inr (Some r)))"

definition renderedProperties :: "property_p1 list option \<Rightarrow> error + string list option" where
  "renderedProperties ps =
     (case ps of
        None \<Rightarrow> Inr None
      | Some l \<Rightarrow> (case mapE printProperty (publicProperties l) of
                    Inl e \<Rightarrow> Inl e
                  | Inr r \<Rightarrow> Inr (Some r)))"

definition getFeatureDetails_p1 :: "feature_p1 \<Rightarrow> error + descriptor_p1" where
  "getFeatureDetails_p1 feature =
     (let (namespace, identifier) = matchIdentifier (firstIdentifier (f_identifiers feature));
          name = camelName identifier;
          jsDoc = withNamespaceTag namespace
                    (case f_jsdoc feature of
                       None \<Rightarrow> \<lparr>jd_description = None, jd_tags = None\<rparr>
                     | Some jd \<Rightarrow> jd)
      in case f_sourceRange feature of
           None \<Rightarrow> Inl TypeError
         | Some file \<Rightarrow>
             (case renderedMethods (f_methods feature) of
                Inl e \<Rightarrow> Inl e
              | Inr ms \<Rightarrow>
                  (case renderedProperties (f_properties feature) of
                     Inl e \<Rightarrow> Inl e
                   | Inr ps \<Rightarrow>
                       Inr \<lparr>d_namespace = namespace, d_name = name, d_jsDoc = jsDoc,
                            d_kinds = f_kinds feature, d_fileName = file,
                            d_module = replaceRepo file,
                            d_methods = ms, d_properties = ps\<rparr>)))"

subsection \<open>Module grouper\<close>

text \<open>The \<^verbatim>\<open>Map\<close> of the reducer, as an association list in insertion order:
  \<^verbatim>\<open>map.get(k).push(mod)\<close> appends to the bucket of \<open>k\<close>, \<^verbatim>\<open>map.set(k, [mod])\<close>
  adds a bucket at the end.\<close>

definition pushTo :: "'k \<Rightarrow> 'v \<Rightarrow> ('k \<times> 'v list) list \<Rightarrow> ('k \<times> 'v list) list" where
  "pushTo k v m = map (\<lambda>(k', b). if k' = k then (k', b @ [v]) else (k', b)) m"

definition groupStep_p1 ::
    "(string \<times> descriptor_p1 list) list \<Rightarrow> descriptor_p1 \<Rightarrow> (string \<times> descriptor_p1 list) list" where
  "groupStep_p1 m md =
     (if map_of m (d_module md) \<noteq> None then pushTo (d_module md) md m
      else m @ [(d_module md, [md])])"

definition groupModules_p1 :: "descriptor_p1 list \<Rightarrow> (string \<times> descriptor_p1 list) list" where
  "groupModules_p1 data = foldl groupStep_p1 [] data"

subsection \<open>Renderer and output\<close>

definition printElement :: "descriptor_p1 \<Rightarrow> error + string" where
  "printElement d =
     (case printJSdoc (Some (d_jsDoc d)) of
        Inl e \<Rightarrow> Inl e
      | Inr doc \<Rightarrow>
          (case d_properties d of
             None \<Rightarrow> Inl TypeError
           | Some ps \<Rightarrow>
               (case d_methods d of
                  None \<Rightarrow> Inl TypeError
                | Some ms \<Rightarrow>
                    Inr (indent (TabNumber 2) doc @
                         ''\<newline>  export class '' @ d_name d @ '' {'' @
                         join ''\<newline>'' ps @ join ''\<newline>'' ms @
                         ''\<newline>  }''))))"

definition printBehavior :: "descriptor_p1 \<Rightarrow> error + string" where
  "printBehavior d =
     (case printJSdoc (Some (d_jsDoc d)) of
        Inl e \<Rightarrow> Inl e
      | Inr doc \<Rightarrow>
          (case d_properties d of
             None \<Rightarrow> Inl TypeError
           | Some ps \<Rightarrow>
               (case d_methods d of
                  None \<Rightarrow> Inl TypeError
                | Some ms \<Rightarrow>
                    Inr (indent (TabNumber 2) doc @
                         ''\<newline>  export interface '' @ d_name d @ '' {'' @
                         join ''\<newline>'' ps @ join ''\<newline>'' ms @
                         ''\<newline>    new (...args): '' @ d_name d @ '';'' @
                         ''\<newline>  }'' @
                         ''\<newline>  export const '' @ d_name d @ '': '' @ d_name d @ '';''))))"

definition printMixin :: "descriptor_p1 \<Rightarrow> error + string" where
  "printMixin d =
     (case printJSdoc (Some (d_jsDoc d)) of
        Inl e \<Rightarrow> Inl e
      | Inr doc \<Rightarrow>
          (case d_properties d of
             None \<Rightarrow> Inl TypeError
           | Some ps \<Rightarrow>
               (case d_methods d of
                  None \<Rightarrow> Inl TypeError
                | Some ms \<Rightarrow>
                    Inr (indent (TabNumber 2) doc @
                         ''\<newline>  export function '' @ d_name d @
                         ''<T extends object>(Base: { new (...args: any[]): T }): {'' @
                         ''\<newline>    new (...args: any[]): T & {'' @
                         indent (TabNumber 2) (join ''\<newline>'' ps @ join ''\<newline>'' ms) @
                         ''\<newline>    }'' @
                         ''\<newline>  };''))))"

definition printDeclaration :: "descriptor_p1 \<Rightarrow> error + string" where
  "printDeclaration d =
     (if ''element'' \<in> set (d_kinds d) then printElement d
      else if ''behavior'' \<in> set (d_kinds d) then printBehavior d
      else if ''element-mixin'' \<in> set (d_kinds d) then printMixin d
      else Inr [])"

definition moduleBlock :: "string \<times> descriptor_p1 list \<Rightarrow> error + string" where
  \<open>moduleBlock entry =
     (case entry of
        (path, contents) \<Rightarrow>
          (case mapE printDeclaration contents of
             Inl e \<Rightarrow> Inl e
           | Inr moduleContents \<Rightarrow>
               Inr (''\<newline>declare module "'' @ path @ ''" {'' @ concat moduleContents @
                    ''\<newline>}'')))\<close>

text \<open>The handler that renders and writes: the result is the text handed to
  \<^verbatim>\<open>fs.writeFileSync(cli.outFile, ...)\<close>, or \<open>None\<close> when nothing is written.\<close>

definition writeTypes :: "(string \<times> descriptor_p1 list) list \<Rightarrow> error + string option" where
  "writeTypes data =
     (case mapE moduleBlock data of
        Inl e \<Rightarrow> Inl e
      | Inr blocks \<Rightarrow>
          (let types = join ''\<newline>'' blocks
           in if length types \<noteq> 0 then Inr (Some (trim types @ ''\<newline>'')) else Inr None))"

definition potts_p1 :: "feature_p1 list \<Rightarrow> error + string option" where
  "potts_p1 features =
     (case mapE getFeatureDetails_p1 (filter filterFeatures_p1 features) of
        Inl e \<Rightarrow> Inl e
      | Inr data \<Rightarrow> writeTypes (groupModules_p1 data))"


section \<open>The per-file generator (part_000)\<close>

subsection \<open>Filter and classifier\<close>

text \<open>A property of a feature; \<open>pp_params\<close> lists the names of the parameter
  objects, the only field \<^verbatim>\<open>cast\<close> reads.\<close>

record property_p0 =
  pp_name :: string
  pp_private :: bool
  pp_type :: "string option"
  pp_readOnly :: bool
  pp_params :: "string list option"
  pp_description :: "string option"

record feature_p0 =
  g_kinds :: "string list"
  g_className :: "string option"
  g_tagName :: "string option"
  g_sourceRange :: "string option"
  g_description :: "string option"
  g_properties :: "property_p0 list option"

definition supportedFeatures_p0 :: "string list" where
  "supportedFeatures_p0 = [''element'', ''element-mixin'', ''namespace'', ''function'', ''behavior'']"

definition filterFeatures_p0 :: "feature_p0 \<Rightarrow> bool" where
  "filterFeatures_p0 feature =
     list_ex (\<lambda>key. key \<in> set supportedFeatures_p0) (g_kinds feature)"

text \<open>A member of a descriptor; \<open>mb_jsDoc\<close> is \<open>None\<close> for \<^verbatim>\<open>null\<close>.\<close>

record member_p0 =
  mb_jsDoc :: "string option"
  mb_readonly :: string
  mb_type :: string
  mb_params :: "string list option"
  mb_name :: string

record descriptor_p0 =
  dp_namespace :: "string option"
  dp_name :: string
  dp_module :: string
  dp_jsdoc :: "string option"
  dp_properties :: "member_p0 list"

definition trimmedOrNull :: "string option \<Rightarrow> string option" where
  "trimmedOrNull d = (if truthy d then map_option trim d else None)"

definition toMember_p0 :: "property_p0 \<Rightarrow> member_p0" where
  "toMember_p0 p =
     (let c = cast (pp_name p) (pp_type p) (pp_params p)
      in \<lparr>mb_jsDoc = trimmedOrNull (pp_description p),
          mb_readonly = (if pp_readOnly p then ''readonly '' else []),
          mb_type = returnType c,
          mb_params = methodParams c,
          mb_name = pp_name p\<rparr>)"

definition newMember_p0 :: "string \<Rightarrow> member_p0" where
  "newMember_p0 camel =
     \<lparr>mb_jsDoc = Some [], mb_readonly = [], mb_type = camel, mb_params = Some [],
      mb_name = ''new''\<rparr>"

text \<open>The name and namespace of \<^verbatim>\<open>getFeatureDetails\<close>: with a non-empty class
  name, its dot-separated parts; otherwise the tag name, which may be undefined.\<close>

definition nameParts_p0 :: "feature_p0 \<Rightarrow> string option \<times> string option" where
  "nameParts_p0 feature =
     (if truthy (g_className feature)
      then (let cNameParts = splitOn (CHR ''.'') (the (g_className feature))
            in (Some (join ''.'' (butlast cNameParts)), Some (last cNameParts)))
      else (None, g_tagName feature))"

definition getFeatureDetails_p0 :: "feature_p0 \<Rightarrow> error + descriptor_p0" where
  "getFeatureDetails_p0 feature =
     (case nameParts_p0 feature of
        (namespace, None) \<Rightarrow> Inl TypeError
      | (namespace, Some name) \<Rightarrow>
          (let camel = camelName name
           in case g_sourceRange feature of
                None \<Rightarrow> Inl TypeError
              | Some file \<Rightarrow>
                  (case g_properties feature of
                     None \<Rightarrow> Inl TypeError
                   | Some props \<Rightarrow>
                       Inr \<lparr>dp_namespace = namespace, dp_name = camel, dp_module = file,
                            dp_jsdoc = trimmedOrNull (g_description feature),
                            dp_properties =
                              map toMember_p0 (filter (\<lambda>property. \<not> pp_private property) props) @
                              [newMember_p0 camel]\<rparr>)))"

subsection \<open>Module grouper\<close>

text \<open>The key computed inside the reducer of \<^verbatim>\<open>toModulesMap\<close>.\<close>

definition modulePath :: "descriptor_p0 \<Rightarrow> string" where
  "modulePath feature =
     replaceRepo (dp_module feature) @
     (if truthy (dp_namespace feature) then ''#'' @ the (dp_namespace feature) else [])"

text \<open>The object \<^verbatim>\<open>map\<close> as an association list in insertion order. A module
  path ends in the extension of an analyzed file, or in a namespace after \<^verbatim>\<open>#\<close>,
  so it is neither an array index nor the name of a property inherited from
  \<^verbatim>\<open>Object.prototype\<close>; the model takes the keys as such.\<close>

definition toModulesStep ::
    "(string \<times> descriptor_p0 list) list \<Rightarrow> descriptor_p0 \<Rightarrow> (string \<times> descriptor_p0 list) list" where
  "toModulesStep m feature =
     (let m' = (if map_of m (modulePath feature) = None then m @ [(modulePath feature, [])] else m)
      in pushTo (modulePath feature) feature m')"

definition toModulesMap :: "descriptor_p0 list \<Rightarrow> (string \<times> descriptor_p0 list) list" where
  "toModulesMap features = foldl toModulesStep [] features"

subsection \<open>Renderer\<close>

text \<open>\<^verbatim>\<open>reindent\<close> is used as a template tag; the chunks and values are first
  joined, so the model takes the joined text. Its steps:
  \<^item> \<^verbatim>\<open>.replace(/\t/g, "  ")\<close>;
  \<^item> \<^verbatim>\<open>.replace(/\n(\s*\n)+/g, "\n")\<close>: after a line feed, the white space that
    follows is removed up to and including its last line feed, when it has one;
  \<^item> \<^verbatim>\<open>.replace(/^\n?([\S\s]*?)[\n\s]*$/, "$1")\<close>: one leading line feed and the
    trailing white space are removed;
  \<^item> \<^verbatim>\<open>str.match(/^(\s)*/mg)\<close>: the lengths of the runs of white space found at
    the starts of lines, searching on after each match; the smallest is the number
    of spaces of \<^verbatim>\<open>tabStart\<close>;
  \<^item> the last \<^verbatim>\<open>replace\<close> removes that many spaces at the start of each line
    that begins with them.\<close>

definition replaceTabs :: "string \<Rightarrow> string" where
  "replaceTabs s = concat (map (\<lambda>c. if c = CHR 0x09 then ''  '' else [c]) s)"

definition afterLastNewline :: "string \<Rightarrow> string" where
  "afterLastNewline w = rev (takeWhile (\<lambda>c. c \<noteq> CHR 0x0A) (rev w))"

function collapse :: "string \<Rightarrow> string" where
  "collapse [] = []"
| "collapse (c # cs) =
     (if c = CHR 0x0A \<and> CHR 0x0A \<in> set (takeWhile isSpace cs)
      then CHR 0x0A # collapse (afterLastNewline (takeWhile isSpace cs) @ dropWhile isSpace cs)
      else c # collapse cs)"
  by pat_completeness auto
termination
proof (relation "measure length")
  show "wf (measure length)" by simp
next
  fix c :: char and cs :: string
  have "length (afterLastNewline (takeWhile isSpace cs)) \<le> length (takeWhile isSpace cs)"
    unfolding afterLastNewline_def length_rev
    using length_takeWhile_le [of "\<lambda>c. c \<noteq> CHR 0x0A" "rev (takeWhile isSpace cs)"] by simp
  moreover have "length (takeWhile isSpace cs) + length (dropWhile isSpace cs) = length cs"
    using takeWhile_dropWhile_id [of isSpace cs] length_append by metis
  ultimately
  show "(afterLastNewline (takeWhile isSpace cs) @ dropWhile isSpace cs, c # cs) \<in> measure length"
    by simp
next
  fix c :: char and cs :: string
  show "(cs, c # cs) \<in> measure length" by simp
qed

definition trimTemplate :: "string \<Rightarrow> string" where
  "trimTemplate s = trimEnd (case s of [] \<Rightarrow> [] | c # cs \<Rightarrow> (if c = CHR 0x0A then cs else c # cs))"

function leadingRuns :: "bool \<Rightarrow> string \<Rightarrow> nat list" where
  "leadingRuns atStart [] = (if atStart then [0] else [])"
| "leadingRuns atStart (c # cs) =
     (if atStart \<and> isSpace c
      then length (takeWhile isSpace (c # cs)) #
           leadingRuns (isLineTerminator (last (takeWhile isSpace (c # cs))))
             (dropWhile isSpace (c # cs))
      else if atStart then 0 # leadingRuns (isLineTerminator c) cs
      else leadingRuns (isLineTerminator c) cs)"
  by pat_completeness auto
termination
proof (relation "measure (\<lambda>(atStart, s). length s)")
  show "wf (measure (\<lambda>(atStart, s). length s))" by simp
next
  fix atStart :: bool and c :: char and cs :: string
  assume "atStart \<and> isSpace c"
  then have "dropWhile isSpace (c # cs) = dropWhile isSpace cs" by simp
  then show "((isLineTerminator (last (takeWhile isSpace (c # cs))), dropWhile isSpace (c # cs)),
              atStart, c # cs) \<in> measure (\<lambda>(atStart, s). length s)"
    using length_dropWhile_le [of isSpace cs] by simp
next
  fix atStart :: bool and c :: char and cs :: string
  show "((isLineTerminator c, cs), atStart, c # cs) \<in> measure (\<lambda>(atStart, s). length s)"
    by simp
next
  fix atStart :: bool and c :: char and cs :: string
  show "((isLineTerminator c, cs), atStart, c # cs) \<in> measure (\<lambda>(atStart, s). length s)"
    by simp
qed

text \<open>\<open>dedent n k atStart s\<close>: \<open>k\<close> counts the spaces of a match still to be
  removed.\<close>

fun dedent :: "nat \<Rightarrow> nat \<Rightarrow> bool \<Rightarrow> string \<Rightarrow> string" where
  "dedent n k atStart [] = []"
| "dedent n (Suc k) atStart (c # cs) = dedent n k False cs"
| "dedent n 0 atStart (c # cs) =
     (if atStart \<and> 0 < n \<and> prefix (replicate n (CHR '' '')) (c # cs) then dedent n (n - 1) False cs
      else c # dedent n 0 (isLineTerminator c) cs)"

definition reindent :: "string \<Rightarrow> string" where
  "reindent src =
     (let str = trimTemplate (collapse (replaceTabs src));
          tabStart = Min (set (leadingRuns True str))
      in dedent tabStart 0 True str)"

text \<open>The template of \<^verbatim>\<open>buildModules\<close>, from the inside out: the comment lines,
  a property, a member (an interface) and a module.\<close>

definition commentLines :: "string \<Rightarrow> string \<Rightarrow> string" where
  "commentLines star doc =
     concat (map (\<lambda>line. star @ (if line \<noteq> [] then '' '' @ line else [])) (splitLines doc))"

definition propertyTemplate :: "member_p0 \<Rightarrow> string" where
  "propertyTemplate p =
     ''\<newline>          '' @
     (if truthy (mb_jsDoc p)
      then ''\<newline>          /**'' @ commentLines ''\<newline>           *'' (the (mb_jsDoc p)) @
           ''\<newline>           */''
      else []) @
     ''\<newline>          '' @ mb_readonly p @ mb_name p @
     (case mb_params p of None \<Rightarrow> [] | Some ps \<Rightarrow> ''('' @ join '', '' ps @ '')'') @
     '': '' @ mb_type p @ '';''"

definition memberTemplate :: "descriptor_p0 \<Rightarrow> string" where
  "memberTemplate d =
     ''\<newline>        '' @
     (if truthy (dp_jsdoc d)
      then ''\<newline>        /**'' @ commentLines ''\<newline>         *'' (the (dp_jsdoc d)) @
           ''\<newline>         */''
      else []) @
     ''\<newline>        export interface '' @ dp_name d @ '' {\<newline>        '' @
     join ''\<newline>'' (map propertyTemplate (dp_properties d)) @
     ''\<newline>        }''"

definition moduleTemplate :: "string \<times> descriptor_p0 list \<Rightarrow> string" where
  \<open>moduleTemplate entry =
     (case entry of
        (path, members) \<Rightarrow>
          ''\<newline>      declare module "'' @ path @ ''" {\<newline>      '' @
          join ''\<newline>'' (map memberTemplate members) @
          ''\<newline>      }'')\<close>

definition buildModules :: "(string \<times> descriptor_p0 list) list \<Rightarrow> string list" where
  "buildModules modulesMap = map (\<lambda>entry. reindent (moduleTemplate entry)) modulesMap"

subsection \<open>Output splitter\<close>

text \<open>\<^verbatim>\<open>mod.match(/declare module "([^"#]*)["#]/)\<close>: the text after the first
  occurrence of \<^verbatim>\<open>declare module "\<close>, up to the first double quote or hash; no
  match when the literal does not occur or nothing ends the run. (When the first
  occurrence has no terminator, no later one has: a later occurrence would itself
  supply the double quote.)\<close>

fun afterLiteral :: "string \<Rightarrow> string \<Rightarrow> string option" where
  "afterLiteral lit [] = (if lit = [] then Some [] else None)"
| "afterLiteral lit (c # cs) =
     (if prefix lit (c # cs) then Some (drop (length lit) (c # cs)) else afterLiteral lit cs)"

definition isPathEnd :: "char \<Rightarrow> bool" where
  "isPathEnd c = (c = CHR 0x22 \<or> c = CHR ''#'')"

definition matchModulePath :: "string \<Rightarrow> string option" where
  \<open>matchModulePath md =
     (case afterLiteral ''declare module "'' md of
        None \<Rightarrow> None
      | Some r \<Rightarrow>
          (if dropWhile (\<lambda>c. \<not> isPathEnd c) r = [] then None
           else Some (takeWhile (\<lambda>c. \<not> isPathEnd c) r)))\<close>

text \<open>\<^verbatim>\<open>path.match(/(?:[^:]*:)?(?:[^\/]+\/)*(.*)\.html/)\<close>, group 1.
  \<^item> \<open>lastHtml\<close>: \<^verbatim>\<open>(.*)\.html\<close> at the start of \<open>s\<close>: the greedy group stays on the
    first line and gives back characters until \<^verbatim>\<open>.html\<close> follows, so it ends at the
    last occurrence of \<^verbatim>\<open>.html\<close> that starts on that line;
  \<^item> \<open>segments\<close>: the positions reached by zero, one, ... iterations of
    \<^verbatim>\<open>(?:[^\/]+\/)\<close>, each a non-empty run without a slash and the slash after it;
    the greedy star tries the largest number first;
  \<^item> \<open>afterScheme\<close>: \<^verbatim>\<open>[^:]*:\<close> consumes up to the first colon, and is tried before
    the empty alternative of the optional group;
  \<^item> the search tries each start position from the left.\<close>

fun lastHtml :: "string \<Rightarrow> string option" where
  "lastHtml [] = None"
| "lastHtml (c # cs) =
     (if isLineTerminator c then None
      else (case lastHtml cs of
              Some g \<Rightarrow> Some (c # g)
            | None \<Rightarrow> (if prefix ''.html'' (c # cs) then Some [] else None)))"

function segments :: "string \<Rightarrow> string list" where
  "segments s =
     (let run = takeWhile (\<lambda>c. c \<noteq> CHR ''/'') s; r = dropWhile (\<lambda>c. c \<noteq> CHR ''/'') s
      in if run \<noteq> [] \<and> r \<noteq> [] then s # segments (tl r) else [s])"
  by pat_completeness auto
termination
proof (relation "measure length")
  show "wf (measure length)" by simp
next
  fix s :: string and run r
  assume "run = takeWhile (\<lambda>c. c \<noteq> CHR ''/'') s" and "r = dropWhile (\<lambda>c. c \<noteq> CHR ''/'') s"
    and "run \<noteq> [] \<and> r \<noteq> []"
  then have "s \<noteq> []" and "length r \<le> length s" and "r \<noteq> []"
    by (auto simp: length_dropWhile_le)
  then show "(tl r, s) \<in> measure length"
    by (cases r) auto
qed

declare segments.simps [simp del]

definition firstSome :: "('a \<Rightarrow> 'b option) \<Rightarrow> 'a list \<Rightarrow> 'b option" where
  "firstSome f xs = (case filter (\<lambda>r. r \<noteq> None) (map f xs) of [] \<Rightarrow> None | r # _ \<Rightarrow> r)"

definition afterScheme :: "string \<Rightarrow> string list" where
  "afterScheme s =
     (let r = dropWhile (\<lambda>c. c \<noteq> CHR '':'') s in if r = [] then [] else [tl r])"

definition matchHtmlAt :: "string \<Rightarrow> string option" where
  "matchHtmlAt s = firstSome (\<lambda>u. firstSome lastHtml (rev (segments u))) (afterScheme s @ [s])"

fun suffixesOf :: "string \<Rightarrow> string list" where
  "suffixesOf [] = [[]]"
| "suffixesOf (c # cs) = (c # cs) # suffixesOf cs"

definition matchFileName :: "string \<Rightarrow> string option" where
  "matchFileName path = firstSome matchHtmlAt (suffixesOf path)"

text \<open>An entry of \<^verbatim>\<open>filesMap\<close>: the path it is keyed by, with its
  \<^verbatim>\<open>fileName\<close> and \<^verbatim>\<open>modules\<close>. A failed match is \<^verbatim>\<open>null\<close>, and reading
  \<^verbatim>\<open>[ 1 ]\<close> of it throws.\<close>

definition splitStep ::
    "(string \<times> string \<times> string list) list \<Rightarrow> string \<Rightarrow> error + (string \<times> string \<times> string list) list" where
  "splitStep filesMap md =
     (case matchModulePath md of
        None \<Rightarrow> Inl TypeError
      | Some path \<Rightarrow>
          (if map_of filesMap path = None
           then (case matchFileName path of
                   None \<Rightarrow> Inl TypeError
                 | Some fileName \<Rightarrow> Inr (filesMap @ [(path, fileName, [md])]))
           else Inr (map (\<lambda>(k, fileName, modules).
                            if k = path then (k, fileName, modules @ [md])
                            else (k, fileName, modules)) filesMap)))"

fun foldlE :: "('s \<Rightarrow> 'a \<Rightarrow> error + 's) \<Rightarrow> 's \<Rightarrow> 'a list \<Rightarrow> error + 's" where
  "foldlE f s [] = Inr s"
| "foldlE f s (x # xs) = (case f s x of Inl e \<Rightarrow> Inl e | Inr s' \<Rightarrow> foldlE f s' xs)"

definition splitModulesToFiles :: "string list \<Rightarrow> error + (string \<times> string \<times> string list) list" where
  "splitModulesToFiles modulesMap = foldlE splitStep [] modulesMap"

text \<open>The writes issued by the last step, one per entry of \<^verbatim>\<open>filesMap\<close>: the file
  name handed to \<^verbatim>\<open>path.join(cli.outDir, ...)\<close> and the text.\<close>

definition writeRequests :: "(string \<times> string \<times> string list) list \<Rightarrow> (string \<times> string) list" where
  "writeRequests filesMap =
     map (\<lambda>(filePath, fileName, modules).
            (fileName @ ''.d.ts'', join ''\<newline>\<newline>'' modules @ ''\<newline>'')) filesMap"

text \<open>The whole run of the per-file generator, from the features of the analyzed
  document to the writes.\<close>

definition potts_p0 :: "feature_p0 list \<Rightarrow> error + (string \<times> string) list" where
  "potts_p0 features =
     (case mapE getFeatureDetails_p0 (filter filterFeatures_p0 features) of
        Inl e \<Rightarrow> Inl e
      | Inr ds \<Rightarrow>
          (case splitModulesToFiles (buildModules (toModulesMap ds)) of
             Inl e \<Rightarrow> Inl e
           | Inr filesMap \<Rightarrow> Inr (writeRequests filesMap)))"

section \<open>The first generator (index.js)\<close>

text \<open>The name derivation of the callback that maps a feature to its declaration
  (lines 130 to 134): the namespace, the name and the cased name, from the class name
  and the tag name of the feature.\<close>

definition featureName_idx ::
    "string option \<Rightarrow> string option \<Rightarrow> error + (string option \<times> string \<times> string)" where
  "featureName_idx className tagName =
     (if truthy tagName then Inr (None, the tagName, camelName (the tagName))
      else if truthy className
      then (let cNameParts = splitOn (CHR ''.'') (the className)
            in Inr (Some (hd cNameParts), last cNameParts, camelName (last cNameParts)))
      else Inl TypeError)"


section \<open>Auxiliary notions for the proofs\<close>

text \<open>Grouping by a key, the common shape of both module groupers, and the
  invariant of the loop: the keys are distinct and are the keys of the elements
  seen so far, each bucket holds the elements of its key in their order, and the
  buckets together hold the elements seen so far, each as often as it was seen.\<close>

definition groupStep :: "('a \<Rightarrow> 'k) \<Rightarrow> ('k \<times> 'a list) list \<Rightarrow> 'a \<Rightarrow> ('k \<times> 'a list) list" where
  "groupStep key m x =
     (if map_of m (key x) = None then m @ [(key x, [x])] else pushTo (key x) x m)"

definition grouped :: "('a \<Rightarrow> 'k) \<Rightarrow> 'a list \<Rightarrow> ('k \<times> 'a list) list \<Rightarrow> bool" where
  "grouped key xs m =
     (distinct (map fst m) \<and> set (map fst m) = key ` set xs \<and>
      map snd m = map (\<lambda>k. filter (\<lambda>x. key x = k) xs) (map fst m) \<and>
      mset (concat (map snd m)) = mset xs)"

text \<open>The text of a module block of the single-file generator, without the
  newline that \<^verbatim>\<open>moduleBlock\<close> puts in front of it.\<close>

definition blockText :: "string \<Rightarrow> string list \<Rightarrow> string" where
  \<open>blockText path moduleContents =
     ''declare module "'' @ path @ ''" {'' @ concat moduleContents @ ''\<newline>}''\<close>

section \<open>Properties\<close>

subsection \<open>Identifier casing\<close>

text \<open>
  Claim C9 at a failing input. In the name \<open>a--b\<close> the second hyphen is consumed
  as the character after the first one and is upper-cased to itself, so the casing
  gives \<open>A-b\<close>: a hyphen is left, and casing the result once more gives \<open>AB\<close>, not
  \<open>A-b\<close>. The two examples of the claim hold: \<open>my-element\<close> becomes \<open>MyElement\<close>
  and \<open>already-Capped\<close> becomes \<open>AlreadyCapped\<close>.
\<close>

theorem camelName_double_hyphen:
  "camelName ''a--b'' = ''A-b''
   \<and> camelName (camelName ''a--b'') = ''AB''
   \<and> camelName ''my-element'' = ''MyElement''
   \<and> camelName ''already-Capped'' = ''AlreadyCapped''"
  by code_simp

subsection \<open>Type mapping\<close>

text \<open>
  Claim C4. Both type mappers are total functions of the descriptor. In
  \<open>parseType\<close>, a descriptor whose base name (the descriptor without a leading
  \<open>!\<close> or \<open>?\<close> and a trailing \<open>=\<close>) is none of \<open>Array\<close>, \<open>Date\<close>, \<open>string\<close>,
  \<open>boolean\<close>, \<open>number\<close>, \<open>Symbol\<close> maps to \<open>any\<close> (to \<open>Array<any>\<close> for a variadic
  parameter), and no result lies outside the seven listed types. In \<open>cast\<close>, a
  descriptor that is none of the three primitives, \<open>Function\<close> or \<open>Array\<close> maps to
  \<open>any\<close> with no parameter list, and an absent descriptor does too.
\<close>

theorem type_mapping_fallback_any:
  "(stripMarkers t \<notin> {''Array'', ''Date'', ''string'', ''boolean'', ''number'', ''Symbol''} \<longrightarrow>
      parseType t False = ''any'' \<and> parseType t True = ''Array<any>'')
   \<and> parseType t False \<in>
        {''any'', ''Array<any>'', ''Date'', ''string'', ''boolean'', ''number'', ''Symbol''}
   \<and> (ty \<notin> {''string'', ''number'', ''boolean'', ''Function'', ''Array''} \<longrightarrow>
        cast name (Some ty) params = \<lparr>returnType = ''any'', methodParams = None\<rparr>)
   \<and> cast name None params = \<lparr>returnType = ''any'', methodParams = None\<rparr>
   \<and> returnType (cast name tyo params) \<in>
        {''any'', ''void'', ''Array<any>'', ''string'', ''number'', ''boolean''}"
  by (auto simp: parseType_def cast_def knownTypes_def primitives_def Let_def
           split: option.splits)

theorem type_mapping_fallback_any_witness:
  "stripMarkers ''?HTMLElement='' \<notin>
     {''Array'', ''Date'', ''string'', ''boolean'', ''number'', ''Symbol''}
   \<and> parseType ''?HTMLElement='' False = ''any''
   \<and> parseType ''?HTMLElement='' True = ''Array<any>''
   \<and> ''Object'' \<notin> {''string'', ''number'', ''boolean'', ''Function'', ''Array''}
   \<and> cast ''value'' (Some ''Object'') None = \<lparr>returnType = ''any'', methodParams = None\<rparr>"
  using type_mapping_fallback_any [of "''?HTMLElement=''" "''Object''" "''value''" None None]
  by (simp add: stripMarkers_def stripLeading_def stripTrailing_def)

subsection \<open>Feature filter\<close>

text \<open>
  Claim C6, as the code has it. Each generator keeps exactly the features that have
  at least one kind in its own supported list, in their order: the per-file
  generator supports \<open>element\<close>, \<open>element-mixin\<close>, \<open>namespace\<close>, \<open>function\<close> and
  \<open>behavior\<close>; the single-file generator supports \<open>element\<close>, \<open>element-mixin\<close> and
  \<open>behavior\<close> only.
\<close>

theorem filterFeatures_exact:
  "filter filterFeatures_p0 fs =
     filter (\<lambda>f. set (g_kinds f) \<inter>
                  {''element'', ''element-mixin'', ''namespace'', ''function'', ''behavior''} \<noteq> {}) fs
   \<and> subseq (filter filterFeatures_p0 fs) fs
   \<and> filter filterFeatures_p1 gs =
     filter (\<lambda>f. set (f_kinds f) \<inter> {''element'', ''element-mixin'', ''behavior''} \<noteq> {}) gs
   \<and> subseq (filter filterFeatures_p1 gs) gs"
proof -
  have p0: "filterFeatures_p0 =
      (\<lambda>f. set (g_kinds f) \<inter>
             {''element'', ''element-mixin'', ''namespace'', ''function'', ''behavior''} \<noteq> {})"
    unfolding filterFeatures_p0_def supportedFeatures_p0_def list_ex_iff
    by (rule ext) auto
  have p1: "filterFeatures_p1 =
      (\<lambda>f. set (f_kinds f) \<inter> {''element'', ''element-mixin'', ''behavior''} \<noteq> {})"
    unfolding filterFeatures_p1_def supportedFeatures_p1_def list_ex_iff
    by (rule ext) auto
  show ?thesis
    unfolding p0 p1 by simp
qed

text \<open>
  Claim C6 as stated fails in the single-file generator: a free function and a
  namespace-level value are dropped there.
\<close>

theorem filterFeatures_p1_drops_function:
  "filter filterFeatures_p1
     [\<lparr>f_kinds = [''function''], f_identifiers = [''Polymer.dom''], f_jsdoc = None,
       f_sourceRange = Some ''polymer.html'', f_methods = None, f_properties = None\<rparr>,
      \<lparr>f_kinds = [''namespace''], f_identifiers = [''Polymer''], f_jsdoc = None,
       f_sourceRange = Some ''polymer.html'', f_methods = None, f_properties = None\<rparr>] = []"
  by (simp add: filterFeatures_p1_def supportedFeatures_p1_def)

subsection \<open>Module grouper\<close>

lemma pushTo_absent: "k \<notin> fst ` set m \<Longrightarrow> pushTo k x m = m"
  by (induction m) (auto simp: pushTo_def)

lemma pushTo_append: "pushTo k x (m @ n) = pushTo k x m @ pushTo k x n"
  by (simp add: pushTo_def)

lemma keys_pushTo: "map fst (pushTo k x m) = map fst m"
  by (induction m) (auto simp: pushTo_def)

lemma buckets_pushTo:
  "map snd (pushTo k x m) = map (\<lambda>(k', b). if k' = k then b @ [x] else b) m"
  by (induction m) (auto simp: pushTo_def)

lemma mset_pushTo:
  "distinct (map fst m) \<Longrightarrow> k \<in> fst ` set m \<Longrightarrow>
   mset (concat (map snd (pushTo k x m))) = mset (concat (map snd m)) + {#x#}"
proof (induction m)
  case Nil
  then show ?case by simp
next
  case (Cons a m)
  obtain k' b where a: "a = (k', b)" by (cases a)
  show ?case
  proof (cases "k' = k")
    case True
    with Cons.prems a have "k \<notin> fst ` set m" by auto
    then have "pushTo k x m = m" by (rule pushTo_absent)
    then have "pushTo k x (a # m) = (k, b @ [x]) # m"
      using a True by (simp add: pushTo_def)
    then show ?thesis using a by simp
  next
    case False
    with Cons.prems a have "k \<in> fst ` set m" and "distinct (map fst m)" by auto
    with Cons.IH have "mset (concat (map snd (pushTo k x m))) = mset (concat (map snd m)) + {#x#}"
      by simp
    moreover have "pushTo k x (a # m) = a # pushTo k x m"
      using a False by (simp add: pushTo_def)
    ultimately show ?thesis by simp
  qed
qed

lemma toModulesStep_groupStep: "toModulesStep m f = groupStep modulePath m f"
proof (cases "map_of m (modulePath f) = None")
  case True
  then have "modulePath f \<notin> fst ` set m" by (simp add: map_of_eq_None_iff)
  then have "pushTo (modulePath f) f m = m" by (rule pushTo_absent)
  with True show ?thesis
    by (simp add: toModulesStep_def groupStep_def pushTo_append) (simp add: pushTo_def)
next
  case False
  then obtain b where "map_of m (modulePath f) = Some b" by auto
  then show ?thesis by (simp add: toModulesStep_def groupStep_def)
qed

lemma groupStep_p1_groupStep: "groupStep_p1 m d = groupStep d_module m d"
  by (simp add: groupStep_p1_def groupStep_def)

lemma grouped_step:
  assumes "grouped key xs m"
  shows "grouped key (xs @ [x]) (groupStep key m x)"
proof (cases "map_of m (key x) = None")
  case True
  then have absent: "key x \<notin> fst ` set m" by (simp add: map_of_eq_None_iff)
  with assms have "key x \<notin> key ` set xs" by (simp add: grouped_def)
  then have none: "filter (\<lambda>y. key y = key x) xs = []"
    by (auto simp: filter_empty_conv image_iff)
  have other: "filter (\<lambda>y. key y = k) (xs @ [x]) = filter (\<lambda>y. key y = k) xs"
    if "k \<in> fst ` set m" for k
    using that absent by auto
  have step: "groupStep key m x = m @ [(key x, [x])]"
    using True by (simp add: groupStep_def)
  from assms absent none show ?thesis
    unfolding step grouped_def
    by (auto simp: other cong: map_cong)
next
  case False
  then have present: "key x \<in> fst ` set m"
    by (simp add: map_of_eq_None_iff)
  have step: "groupStep key m x = pushTo (key x) x m"
    using False by (auto simp: groupStep_def)
  from assms have d: "distinct (map fst m)" and k: "set (map fst m) = key ` set xs"
    and b: "map snd m = map (\<lambda>k. filter (\<lambda>x. key x = k) xs) (map fst m)"
    and ms: "mset (concat (map snd m)) = mset xs"
    by (simp_all add: grouped_def)
  have snd_eq: "snd p = filter (\<lambda>y. key y = fst p) xs" if "p \<in> set m" for p
  proof -
    from b have "map snd m = map (\<lambda>p. filter (\<lambda>y. key y = fst p) xs) m"
      by (simp add: comp_def)
    with that show ?thesis by (meson map_eq_conv)
  qed
  have c3: "map snd (pushTo (key x) x m) =
        map (\<lambda>k. filter (\<lambda>y. key y = k) (xs @ [x])) (map fst (pushTo (key x) x m))"
    unfolding keys_pushTo buckets_pushTo
    using snd_eq by (auto simp: comp_def split: prod.splits)
  have c2: "set (map fst (pushTo (key x) x m)) = key ` set (xs @ [x])"
    using k present by (auto simp: keys_pushTo)
  have c1: "distinct (map fst (pushTo (key x) x m))"
    using d by (simp add: keys_pushTo)
  have c4: "mset (concat (map snd (pushTo (key x) x m))) = mset (xs @ [x])"
    using mset_pushTo [OF d present] ms by simp
  show ?thesis
    unfolding step grouped_def using c1 c2 c3 c4 by blast
qed

lemma grouped_foldl: "grouped key xs (foldl (groupStep key) [] xs)"
proof (induction xs rule: rev_induct)
  case Nil
  show ?case by (simp add: grouped_def)
next
  case (snoc x xs)
  then show ?case by (simp add: grouped_step)
qed

lemma toModulesMap_grouped: "grouped modulePath ds (toModulesMap ds)"
proof -
  have eq: "toModulesStep = groupStep modulePath"
    by (intro ext) (rule toModulesStep_groupStep)
  show ?thesis unfolding toModulesMap_def eq by (rule grouped_foldl)
qed

lemma groupModules_p1_grouped: "grouped d_module ds (groupModules_p1 ds)"
proof -
  have eq: "groupStep_p1 = groupStep d_module"
    by (intro ext) (rule groupStep_p1_groupStep)
  show ?thesis unfolding groupModules_p1_def eq by (rule grouped_foldl)
qed

text \<open>
  Claim C8. Both module groupers partition their input: the bucket keys are
  distinct and are exactly the keys that occur; the bucket of a key is the input
  list filtered by that key, so every descriptor lies in the one bucket of its key,
  in first-seen order, with repetitions kept; and the buckets together hold the
  descriptors of the input, each as often as the input does.
\<close>

theorem module_grouper_partition:
  "distinct (map fst (toModulesMap ds))
   \<and> set (map fst (toModulesMap ds)) = modulePath ` set ds
   \<and> map snd (toModulesMap ds) =
       map (\<lambda>k. filter (\<lambda>d. modulePath d = k) ds) (map fst (toModulesMap ds))
   \<and> mset (concat (map snd (toModulesMap ds))) = mset ds
   \<and> distinct (map fst (groupModules_p1 es))
   \<and> set (map fst (groupModules_p1 es)) = d_module ` set es
   \<and> map snd (groupModules_p1 es) =
       map (\<lambda>k. filter (\<lambda>d. d_module d = k) es) (map fst (groupModules_p1 es))
   \<and> mset (concat (map snd (groupModules_p1 es))) = mset es"
  using toModulesMap_grouped [of ds] groupModules_p1_grouped [of es]
  unfolding grouped_def by blast

subsection \<open>Text helpers\<close>

lemma mapE_Inr_iff: "mapE f xs = Inr ys \<longleftrightarrow> list_all2 (\<lambda>x y. f x = Inr y) xs ys"
proof (induction xs arbitrary: ys)
  case Nil
  show ?case by auto
next
  case (Cons x xs)
  show ?case
    by (cases ys) (auto simp: Cons.IH [symmetric] split: sum.splits)
qed

lemma join_Cons: "join sep (x # xs) = (if xs = [] then x else x @ sep @ join sep xs)"
  by (cases xs) auto

lemma join_leading_newlines:
  "texts \<noteq> [] \<Longrightarrow>
   join ''\<newline>'' (map (\<lambda>t. ''\<newline>'' @ t) texts) = ''\<newline>'' @ join ''\<newline>\<newline>'' texts"
  by (induction texts) (auto simp: join_Cons)

lemma hd_join: "xs \<noteq> [] \<Longrightarrow> hd xs \<noteq> [] \<Longrightarrow> hd (join sep xs) = hd (hd xs)"
  by (cases xs) (auto simp: join_Cons)

lemma join_last_nonempty: "xs \<noteq> [] \<Longrightarrow> last xs \<noteq> [] \<Longrightarrow> join sep xs \<noteq> []"
  by (induction xs) (auto simp: join_Cons)

lemma last_join: "xs \<noteq> [] \<Longrightarrow> last xs \<noteq> [] \<Longrightarrow> last (join sep xs) = last (last xs)"
  by (induction xs) (auto simp: join_Cons join_last_nonempty)

lemma join_hd_nonempty: "xs \<noteq> [] \<Longrightarrow> hd xs \<noteq> [] \<Longrightarrow> join sep xs \<noteq> []"
  by (cases xs) (auto simp: join_Cons)

lemma trimEnd_id: "t \<noteq> [] \<Longrightarrow> \<not> isSpace (last t) \<Longrightarrow> trimEnd t = t"
proof -
  assume "t \<noteq> []" and "\<not> isSpace (last t)"
  then have "dropWhile isSpace (rev t) = rev t"
    by (cases "rev t") (auto simp: last_rev hd_rev [symmetric])
  then show ?thesis by (simp add: trimEnd_def)
qed

lemma trim_leading_newline:
  "t \<noteq> [] \<Longrightarrow> \<not> isSpace (hd t) \<Longrightarrow> \<not> isSpace (last t) \<Longrightarrow> trim (''\<newline>'' @ t) = t"
proof -
  assume t: "t \<noteq> []" and h: "\<not> isSpace (hd t)" and l: "\<not> isSpace (last t)"
  have "isSpace (CHR 0x0A)" by (simp add: isSpace_def)
  moreover from t h have "dropWhile isSpace t = t" by (cases t) auto
  ultimately show ?thesis using t l by (simp add: trim_def trimEnd_id)
qed


subsection \<open>Single-file output\<close>

lemma blockText_ends:
  "blockText p mc \<noteq> [] \<and> hd (blockText p mc) = CHR ''d'' \<and> last (blockText p mc) = CHR ''}''"
  by (simp add: blockText_def)

lemma moduleBlock_Inr:
  "moduleBlock e = Inr b \<longleftrightarrow>
   (\<exists>mc. mapE printDeclaration (snd e) = Inr mc \<and> b = ''\<newline>'' @ blockText (fst e) mc)"
  by (cases e) (auto simp: moduleBlock_def blockText_def split: sum.splits)

lemma blocks_texts:
  "list_all2 (\<lambda>e b. moduleBlock e = Inr b) data blocks \<Longrightarrow>
   \<exists>texts. blocks = map (\<lambda>t. ''\<newline>'' @ t) texts \<and>
     list_all2 (\<lambda>e t. \<exists>mc. mapE printDeclaration (snd e) = Inr mc \<and> t = blockText (fst e) mc)
       data texts"
proof (induction rule: list_all2_induct)
  case Nil
  show ?case by simp
next
  case (Cons e es b bs)
  from Cons.hyps(1) obtain mc where mc: "mapE printDeclaration (snd e) = Inr mc"
    and b: "b = ''\<newline>'' @ blockText (fst e) mc"
    by (auto simp: moduleBlock_Inr)
  from Cons.IH obtain texts where bs: "bs = map (\<lambda>t. ''\<newline>'' @ t) texts"
    and all: "list_all2 (\<lambda>e t. \<exists>mc. mapE printDeclaration (snd e) = Inr mc \<and> t = blockText (fst e) mc)
       es texts"
    by blast
  show ?case
  proof (intro exI conjI)
    show "b # bs = map (\<lambda>t. ''\<newline>'' @ t) (blockText (fst e) mc # texts)"
      using b bs by simp
    show "list_all2 (\<lambda>e t. \<exists>mc. mapE printDeclaration (snd e) = Inr mc \<and> t = blockText (fst e) mc)
       (e # es) (blockText (fst e) mc # texts)"
      using mc all by auto
  qed
qed

lemma texts_ends:
  "list_all2 (\<lambda>e t. \<exists>mc. mapE printDeclaration (snd e) = Inr mc \<and> t = blockText (fst e) mc)
       data texts \<Longrightarrow> t \<in> set texts \<Longrightarrow> t \<noteq> [] \<and> hd t = CHR ''d'' \<and> last t = CHR ''}''"
  by (induction rule: list_all2_induct) (auto simp: blockText_ends)

text \<open>
  Claim C10. When the handler of the single-file generator ends without an
  exception, it writes no file exactly when there is no module bucket; with at
  least one bucket it writes the rendered module blocks, separated by one blank
  line, followed by one newline that comes directly after the closing brace of the
  last block. When no feature passes the filter, the run ends without an exception
  and without a write.
\<close>

theorem writeTypes_single_file:
  "(writeTypes data = Inr w \<longrightarrow>
      (w = None \<longleftrightarrow> data = []) \<and>
      (data \<noteq> [] \<longrightarrow>
         (\<exists>texts.
            list_all2 (\<lambda>e t. \<exists>mc. mapE printDeclaration (snd e) = Inr mc \<and> t = blockText (fst e) mc)
              data texts
            \<and> w = Some (join ''\<newline>\<newline>'' texts @ ''\<newline>'')
            \<and> last (join ''\<newline>\<newline>'' texts) = CHR ''}'')))
   \<and> (filter filterFeatures_p1 fs = [] \<longrightarrow> potts_p1 fs = Inr None)"
proof (intro conjI impI)
  assume "filter filterFeatures_p1 fs = []"
  then show "potts_p1 fs = Inr None"
    by (simp add: potts_p1_def groupModules_p1_def writeTypes_def)
next
  assume w: "writeTypes data = Inr w"
  then obtain blocks where blocks: "mapE moduleBlock data = Inr blocks"
    and w_eq: "w = (if join ''\<newline>'' blocks \<noteq> [] then Some (trim (join ''\<newline>'' blocks) @ ''\<newline>'') else None)"
    by (auto simp: writeTypes_def Let_def split: sum.splits if_splits)
  from blocks have all: "list_all2 (\<lambda>e b. moduleBlock e = Inr b) data blocks"
    by (simp add: mapE_Inr_iff)
  then obtain texts where bt: "blocks = map (\<lambda>t. ''\<newline>'' @ t) texts"
    and tx: "list_all2 (\<lambda>e t. \<exists>mc. mapE printDeclaration (snd e) = Inr mc \<and> t = blockText (fst e) mc)
       data texts"
    using blocks_texts by blast
  from tx have len: "length texts = length data" by (simp add: list_all2_lengthD)
  have written: "w = Some (join ''\<newline>\<newline>'' texts @ ''\<newline>'')
      \<and> last (join ''\<newline>\<newline>'' texts) = CHR ''}''" if ne: "data \<noteq> []"
  proof -
    from ne len have tne: "texts \<noteq> []" by auto
    then have "hd texts \<in> set texts" and "last texts \<in> set texts" by simp_all
    with tx have h: "hd texts \<noteq> []" "hd (hd texts) = CHR ''d''"
      and l: "last texts \<noteq> []" "last (last texts) = CHR ''}''"
      using texts_ends by blast+
    let ?T = "join ''\<newline>\<newline>'' texts"
    from tne h l have T: "?T \<noteq> []" "hd ?T = CHR ''d''" "last ?T = CHR ''}''"
      by (simp_all add: join_hd_nonempty hd_join last_join)
    then have "trim (''\<newline>'' @ ?T) = ?T"
      by (intro trim_leading_newline) (simp_all add: isSpace_def)
    moreover have "join ''\<newline>'' blocks = ''\<newline>'' @ ?T"
      unfolding bt using tne by (rule join_leading_newlines)
    ultimately show ?thesis using w_eq T by simp
  qed
  show "(w = None) = (data = [])"
  proof (cases "data = []")
    case True
    with len bt w_eq show ?thesis by simp
  next
    case False
    with written show ?thesis by simp
  qed
  show "\<exists>texts.
            list_all2 (\<lambda>e t. \<exists>mc. mapE printDeclaration (snd e) = Inr mc \<and> t = blockText (fst e) mc)
              data texts
            \<and> w = Some (join ''\<newline>\<newline>'' texts @ ''\<newline>'')
            \<and> last (join ''\<newline>\<newline>'' texts) = CHR ''}''" if "data \<noteq> []"
    using that written tx by blast
qed

theorem writeTypes_single_file_witness:
  \<open>writeTypes [(''a.html'', [])] = Inr (Some ''declare module "a.html" {\<newline>}\<newline>'')
   \<and> filter filterFeatures_p1 [] = [] \<and> potts_p1 [] = Inr None\<close>
proof -
  have "writeTypes [(''a.html'', [])] = Inr (Some (blockText ''a.html'' [] @ ''\<newline>''))"
    by code_simp
  with writeTypes_single_file [of "[(''a.html'', [])]" "Some (blockText ''a.html'' [] @ ''\<newline>'')" "[]"]
  show ?thesis by (simp add: blockText_def)
qed

subsection \<open>Module key\<close>

lemma replaceRepo_leading:
  "replaceRepo (''bower_components/'' @ r) = ''bower:'' @ r"
  "replaceRepo (''node_modules/'' @ r) = ''npm:'' @ r"
  by simp_all

lemma replaceRepo_absent:
  "\<not> sublist ''bower_components/'' p \<Longrightarrow> \<not> sublist ''node_modules/'' p \<Longrightarrow> replaceRepo p = p"
proof (induction p)
  case Nil
  show ?case by simp
next
  case (Cons c cs)
  from Cons.prems have here: "\<not> prefix ''bower_components/'' (c # cs)"
      "\<not> prefix ''node_modules/'' (c # cs)"
    and rest: "\<not> sublist ''bower_components/'' cs" "\<not> sublist ''node_modules/'' cs"
    by (auto simp only: sublist_Cons_right)
  from rest have "replaceRepo cs = cs" by (rule Cons.IH)
  with here show ?case by (simp only: replaceRepo.simps if_False)
qed

lemma replaceRepo_leftmost:
  "(\<forall>i<length pre. \<not> prefix ''bower_components/'' (drop i (pre @ r))
                   \<and> \<not> prefix ''node_modules/'' (drop i (pre @ r)))
   \<Longrightarrow> replaceRepo (pre @ r) = pre @ replaceRepo r"
proof (induction pre)
  case Nil
  show ?case by simp
next
  case (Cons c cs)
  from Cons.prems have here: "\<not> prefix ''bower_components/'' ((c # cs) @ r)"
      "\<not> prefix ''node_modules/'' ((c # cs) @ r)"
    by (metis drop0 length_greater_0_conv list.distinct(1))+
  have "\<forall>i<length cs. \<not> prefix ''bower_components/'' (drop i (cs @ r))
                   \<and> \<not> prefix ''node_modules/'' (drop i (cs @ r))"
  proof (intro allI impI)
    fix i assume "i < length cs"
    then have "Suc i < length (c # cs)" by simp
    with Cons.prems have "\<not> prefix ''bower_components/'' (drop (Suc i) ((c # cs) @ r))
                   \<and> \<not> prefix ''node_modules/'' (drop (Suc i) ((c # cs) @ r))"
      by blast
    then show "\<not> prefix ''bower_components/'' (drop i (cs @ r))
                   \<and> \<not> prefix ''node_modules/'' (drop i (cs @ r))" by simp
  qed
  with Cons.IH have "replaceRepo (cs @ r) = cs @ replaceRepo r" by blast
  with here show ?case by (simp only: append_Cons replaceRepo.simps if_False)
qed

lemma modulePath_namespace:
  "dp_module a = dp_module b \<Longrightarrow> truthy (dp_namespace a) \<Longrightarrow> \<not> truthy (dp_namespace b)
   \<Longrightarrow> modulePath a \<noteq> modulePath b"
  by (simp add: modulePath_def)

lemma getFeatureDetails_p1_module:
  "getFeatureDetails_p1 f = Inr e \<Longrightarrow>
   f_sourceRange f = Some (d_fileName e) \<and> d_module e = replaceRepo (d_fileName e)"
  by (auto simp: getFeatureDetails_p1_def Let_def split: prod.splits option.splits sum.splits)

text \<open>
  Claim C5, as the code has it. In the per-file generator the module key is the
  file path in which the leftmost occurrence of \<open>bower_components/\<close> or
  \<open>node_modules/\<close>, wherever it stands, is rewritten to \<open>bower:\<close> or
  \<open>npm:\<close>, followed by \<open>#\<close> and the namespace when the namespace is not
  empty; the path is the file of the source range of the feature. For the rewriting: a leading root is rewritten; a prefix in which no root starts is kept and
  the rest is rewritten; a path without a root is unchanged. Two descriptors of one
  file, one with and one without a namespace, get different keys. In the
  single-file generator the key is the rewritten path alone.
\<close>

theorem module_key_derivation:
  "modulePath d =
     replaceRepo (dp_module d) @
     (case dp_namespace d of None \<Rightarrow> [] | Some ns \<Rightarrow> if ns = [] then [] else ''#'' @ ns)
   \<and> replaceRepo (''bower_components/'' @ r) = ''bower:'' @ r
   \<and> replaceRepo (''node_modules/'' @ r) = ''npm:'' @ r
   \<and> ((\<forall>i<length pre. \<not> prefix ''bower_components/'' (drop i (pre @ r))
                      \<and> \<not> prefix ''node_modules/'' (drop i (pre @ r)))
        \<longrightarrow> replaceRepo (pre @ r) = pre @ replaceRepo r)
   \<and> (\<not> sublist ''bower_components/'' p \<and> \<not> sublist ''node_modules/'' p \<longrightarrow> replaceRepo p = p)
   \<and> (dp_module a = dp_module b \<and> truthy (dp_namespace a) \<and> \<not> truthy (dp_namespace b)
        \<longrightarrow> modulePath a \<noteq> modulePath b)
   \<and> (getFeatureDetails_p1 f = Inr e
        \<longrightarrow> f_sourceRange f = Some (d_fileName e) \<and> d_module e = replaceRepo (d_fileName e))
   \<and> (getFeatureDetails_p0 g = Inr e' \<longrightarrow> g_sourceRange g = Some (dp_module e'))"
proof (intro conjI impI)
  show "modulePath d =
     replaceRepo (dp_module d) @
     (case dp_namespace d of None \<Rightarrow> [] | Some ns \<Rightarrow> if ns = [] then [] else ''#'' @ ns)"
    by (simp add: modulePath_def truthy_def split: option.splits)
  show "replaceRepo (''bower_components/'' @ r) = ''bower:'' @ r"
    by (rule replaceRepo_leading)
  show "replaceRepo (''node_modules/'' @ r) = ''npm:'' @ r"
    by (rule replaceRepo_leading)
  show "replaceRepo (pre @ r) = pre @ replaceRepo r"
    if "\<forall>i<length pre. \<not> prefix ''bower_components/'' (drop i (pre @ r))
                      \<and> \<not> prefix ''node_modules/'' (drop i (pre @ r))"
    using that by (rule replaceRepo_leftmost)
  show "replaceRepo p = p"
    if "\<not> sublist ''bower_components/'' p \<and> \<not> sublist ''node_modules/'' p"
    using that by (simp add: replaceRepo_absent)
  show "modulePath a \<noteq> modulePath b"
    if "dp_module a = dp_module b \<and> truthy (dp_namespace a) \<and> \<not> truthy (dp_namespace b)"
    using that by (simp add: modulePath_namespace)
  show "f_sourceRange f = Some (d_fileName e)" and "d_module e = replaceRepo (d_fileName e)"
    if "getFeatureDetails_p1 f = Inr e"
    using that by (simp_all add: getFeatureDetails_p1_module)
  show "g_sourceRange g = Some (dp_module e')" if "getFeatureDetails_p0 g = Inr e'"
    using that
    by (auto simp: getFeatureDetails_p0_def Let_def split: prod.splits option.splits)
qed


theorem module_key_derivation_witness:
  "modulePath \<lparr>dp_namespace = Some ''Polymer'', dp_name = ''Foo'',
       dp_module = ''bower_components/polymer/polymer.html'', dp_jsdoc = None,
       dp_properties = []\<rparr> = ''bower:polymer/polymer.html#Polymer''
   \<and> replaceRepo (''node_modules/x/x.html'') = ''npm:x/x.html''
   \<and> replaceRepo (''s/'' @ ''node_modules/x.html'') = ''s/npm:x.html''
   \<and> replaceRepo ''my-element.html'' = ''my-element.html''
   \<and> modulePath \<lparr>dp_namespace = Some ''Polymer'', dp_name = ''Foo'',
       dp_module = ''bower_components/polymer/polymer.html'', dp_jsdoc = None,
       dp_properties = []\<rparr>
     \<noteq> modulePath \<lparr>dp_namespace = None, dp_name = ''Foo'',
       dp_module = ''bower_components/polymer/polymer.html'', dp_jsdoc = None,
       dp_properties = []\<rparr>
   \<and> getFeatureDetails_p1
        \<lparr>f_kinds = [''element''], f_identifiers = [''Polymer.Foo''], f_jsdoc = None,
         f_sourceRange = Some ''bower_components/a/b.html'', f_methods = None,
         f_properties = None\<rparr>
       = Inr \<lparr>d_namespace = Some ''Polymer'', d_name = ''Foo'',
              d_jsDoc = \<lparr>jd_description = None, jd_tags = Some [namespaceTag ''Polymer'']\<rparr>,
              d_kinds = [''element''], d_fileName = ''bower_components/a/b.html'',
              d_module = ''bower:a/b.html'', d_methods = None, d_properties = None\<rparr>"
proof -
  let ?a = "\<lparr>dp_namespace = Some ''Polymer'', dp_name = ''Foo'',
       dp_module = ''bower_components/polymer/polymer.html'', dp_jsdoc = None,
       dp_properties = []\<rparr>"
  let ?b = "\<lparr>dp_namespace = None, dp_name = ''Foo'',
       dp_module = ''bower_components/polymer/polymer.html'', dp_jsdoc = None,
       dp_properties = []\<rparr>"
  let ?f = "\<lparr>f_kinds = [''element''], f_identifiers = [''Polymer.Foo''], f_jsdoc = None,
         f_sourceRange = Some ''bower_components/a/b.html'', f_methods = None,
         f_properties = None\<rparr>"
  let ?e = "\<lparr>d_namespace = Some ''Polymer'', d_name = ''Foo'',
              d_jsDoc = \<lparr>jd_description = None, jd_tags = Some [namespaceTag ''Polymer'']\<rparr>,
              d_kinds = [''element''], d_fileName = ''bower_components/a/b.html'',
              d_module = replaceRepo ''bower_components/a/b.html'', d_methods = None,
              d_properties = None\<rparr>"
  have h1: "\<forall>i<length ''s/''. \<not> prefix ''bower_components/'' (drop i (''s/'' @ ''node_modules/x.html''))
                      \<and> \<not> prefix ''node_modules/'' (drop i (''s/'' @ ''node_modules/x.html''))"
    by (simp add: less_Suc_eq)
  have h2: "\<not> sublist ''bower_components/'' ''my-element.html''
            \<and> \<not> sublist ''node_modules/'' ''my-element.html''"
    by code_simp
  have h3: "dp_module ?a = dp_module ?b \<and> truthy (dp_namespace ?a) \<and> \<not> truthy (dp_namespace ?b)"
    by (simp add: truthy_def)
  have h4: "getFeatureDetails_p1 ?f = Inr ?e"
    by code_simp
  from module_key_derivation
         [of ?a "''node_modules/x.html''" "''s/''" "''my-element.html''" ?a ?b ?f ?e]
       h1 h2 h3 h4
  show ?thesis
    by (simp add: modulePath_def truthy_def)
qed

text \<open>
  Claim C5 as stated fails twice. A root that is not the leading segment is
  rewritten too: the key of \<open>src/node_modules/x-el.html\<close> is
  \<open>src/npm:x-el.html\<close>. And the single-file generator appends no namespace:
  the features \<open>Polymer.Foo\<close> and \<open>my-foo\<close> of the file \<open>x.html\<close> both get
  the key \<open>x.html\<close>; the namespace is kept as a documentation tag instead.
\<close>

theorem module_key_counterexample:
  "modulePath \<lparr>dp_namespace = None, dp_name = ''XEl'', dp_module = ''src/node_modules/x-el.html'',
       dp_jsdoc = None, dp_properties = []\<rparr> = ''src/npm:x-el.html''
   \<and> getFeatureDetails_p1
        \<lparr>f_kinds = [''element''], f_identifiers = [''Polymer.Foo''], f_jsdoc = None,
         f_sourceRange = Some ''x.html'', f_methods = None, f_properties = None\<rparr>
       = Inr \<lparr>d_namespace = Some ''Polymer'', d_name = ''Foo'',
              d_jsDoc = \<lparr>jd_description = None,
                         jd_tags = Some [\<lparr>tag_title = ''namespace'', tag_type = None,
                                          tag_name = Some ''Polymer'', tag_description = None\<rparr>]\<rparr>,
              d_kinds = [''element''], d_fileName = ''x.html'',
              d_module = ''x.html'', d_methods = None, d_properties = None\<rparr>
   \<and> getFeatureDetails_p1
        \<lparr>f_kinds = [''element''], f_identifiers = [''my-foo''], f_jsdoc = None,
         f_sourceRange = Some ''x.html'', f_methods = None, f_properties = None\<rparr>
       = Inr \<lparr>d_namespace = None, d_name = ''MyFoo'',
              d_jsDoc = \<lparr>jd_description = None, jd_tags = None\<rparr>,
              d_kinds = [''element''], d_fileName = ''x.html'',
              d_module = ''x.html'', d_methods = None, d_properties = None\<rparr>"
  by code_simp

subsection \<open>Member filtering\<close>

lemma renderedProperties_Inr:
  "renderedProperties pso = Inr r \<Longrightarrow>
   (case pso of
      None \<Rightarrow> r = None
    | Some ps \<Rightarrow>
        \<exists>rs. r = Some rs \<and>
          list_all2 (\<lambda>p s. printProperty p = Inr s)
            (filter (\<lambda>p. pr_privacy p = ''public'' \<and> pr_type p \<noteq> Some ''Conditional'') ps) rs)"
  by (auto simp: renderedProperties_def publicProperties_def mapE_Inr_iff conj_commute
           split: option.splits sum.splits)


lemma renderedMethods_Inr:
  "renderedMethods mso = Inr r \<Longrightarrow>
   (case mso of
      None \<Rightarrow> r = None
    | Some ms \<Rightarrow>
        \<exists>rs. r = Some rs \<and>
          list_all2 (\<lambda>m s. printMethod m = Inr s) (filter (\<lambda>m. m_privacy m = ''public'') ms) rs)"
  by (auto simp: renderedMethods_def publicMethods_def mapE_Inr_iff
           split: option.splits sum.splits)

lemma getFeatureDetails_p1_members:
  "getFeatureDetails_p1 f = Inr e \<Longrightarrow>
   renderedMethods (f_methods f) = Inr (d_methods e) \<and>
   renderedProperties (f_properties f) = Inr (d_properties e)"
  by (auto simp: getFeatureDetails_p1_def Let_def split: prod.splits option.splits sum.splits)

lemma getFeatureDetails_p0_members:
  "getFeatureDetails_p0 g = Inr e \<Longrightarrow>
   \<exists>ps. g_properties g = Some ps \<and>
     dp_properties e = map toMember_p0 (filter (\<lambda>p. \<not> pp_private p) ps) @ [newMember_p0 (dp_name e)]"
  by (auto simp: getFeatureDetails_p0_def Let_def split: prod.splits option.splits)

text \<open>
  Claim C7, as the code has it. In the single-file generator the descriptor holds
  the renderings of exactly the properties that are public and whose type is not
  \<open>Conditional\<close>, and of exactly the public methods, in their order. In the
  per-file generator it holds the members made from exactly the properties that are
  not private, whatever their type, followed by the synthesized member \<open>new\<close>.
\<close>

theorem member_filtering:
  "(getFeatureDetails_p1 f = Inr e \<longrightarrow>
      (case f_properties f of
         None \<Rightarrow> d_properties e = None
       | Some ps \<Rightarrow>
           \<exists>rs. d_properties e = Some rs \<and>
             list_all2 (\<lambda>p s. printProperty p = Inr s)
               (filter (\<lambda>p. pr_privacy p = ''public'' \<and> pr_type p \<noteq> Some ''Conditional'') ps) rs)
      \<and> (case f_methods f of
         None \<Rightarrow> d_methods e = None
       | Some ms \<Rightarrow>
           \<exists>rs. d_methods e = Some rs \<and>
             list_all2 (\<lambda>m s. printMethod m = Inr s) (filter (\<lambda>m. m_privacy m = ''public'') ms) rs))
   \<and> (getFeatureDetails_p0 g = Inr e' \<longrightarrow>
        (\<exists>ps. g_properties g = Some ps \<and>
           dp_properties e' =
             map toMember_p0 (filter (\<lambda>p. \<not> pp_private p) ps) @ [newMember_p0 (dp_name e')]))"
proof (intro conjI impI)
  assume a: "getFeatureDetails_p1 f = Inr e"
  then have "renderedProperties (f_properties f) = Inr (d_properties e)"
    by (simp add: getFeatureDetails_p1_members)
  then show "case f_properties f of
         None \<Rightarrow> d_properties e = None
       | Some ps \<Rightarrow>
           \<exists>rs. d_properties e = Some rs \<and>
             list_all2 (\<lambda>p s. printProperty p = Inr s)
               (filter (\<lambda>p. pr_privacy p = ''public'' \<and> pr_type p \<noteq> Some ''Conditional'') ps) rs"
    by (rule renderedProperties_Inr)
  from a have "renderedMethods (f_methods f) = Inr (d_methods e)"
    by (simp add: getFeatureDetails_p1_members)
  then show "case f_methods f of
         None \<Rightarrow> d_methods e = None
       | Some ms \<Rightarrow>
           \<exists>rs. d_methods e = Some rs \<and>
             list_all2 (\<lambda>m s. printMethod m = Inr s) (filter (\<lambda>m. m_privacy m = ''public'') ms) rs"
    by (rule renderedMethods_Inr)
next
  assume "getFeatureDetails_p0 g = Inr e'"
  then show "\<exists>ps. g_properties g = Some ps \<and>
           dp_properties e' =
             map toMember_p0 (filter (\<lambda>p. \<not> pp_private p) ps) @ [newMember_p0 (dp_name e')]"
    by (rule getFeatureDetails_p0_members)
qed

theorem member_filtering_witness:
  "getFeatureDetails_p1
     \<lparr>f_kinds = [''element''], f_identifiers = [''my-element''], f_jsdoc = None,
      f_sourceRange = Some ''my-element.html'',
      f_methods = Some
        [\<lparr>m_name = ''open'', m_privacy = ''public'', m_params = Some [], m_return = None,
          m_jsdoc = Some \<lparr>jd_description = Some [], jd_tags = Some []\<rparr>\<rparr>,
         \<lparr>m_name = ''_close'', m_privacy = ''protected'', m_params = Some [], m_return = None,
          m_jsdoc = Some \<lparr>jd_description = Some [], jd_tags = Some []\<rparr>\<rparr>],
      f_properties = Some
        [\<lparr>pr_name = ''label'', pr_privacy = ''public'', pr_type = Some ''string'',
          pr_jsdoc = Some \<lparr>jd_description = Some [], jd_tags = Some []\<rparr>\<rparr>,
         \<lparr>pr_name = ''_state'', pr_privacy = ''private'', pr_type = Some ''Object'',
          pr_jsdoc = Some \<lparr>jd_description = Some [], jd_tags = Some []\<rparr>\<rparr>,
         \<lparr>pr_name = ''cond'', pr_privacy = ''public'', pr_type = Some ''Conditional'',
          pr_jsdoc = Some \<lparr>jd_description = Some [], jd_tags = Some []\<rparr>\<rparr>]\<rparr>
   = Inr \<lparr>d_namespace = None, d_name = ''MyElement'',
          d_jsDoc = \<lparr>jd_description = None, jd_tags = None\<rparr>,
          d_kinds = [''element''], d_fileName = ''my-element.html'',
          d_module = ''my-element.html'',
          d_methods = Some [''\<newline>    open();''],
          d_properties = Some [''\<newline>    label: string;'']\<rparr>
   \<and> getFeatureDetails_p0
     \<lparr>g_kinds = [''element''], g_className = None, g_tagName = Some ''my-element'',
      g_sourceRange = Some ''my-element.html'', g_description = None,
      g_properties = Some
        [\<lparr>pp_name = ''label'', pp_private = False, pp_type = Some ''string'', pp_readOnly = True,
          pp_params = None, pp_description = None\<rparr>,
         \<lparr>pp_name = ''_state'', pp_private = True, pp_type = Some ''Object'', pp_readOnly = False,
          pp_params = None, pp_description = None\<rparr>]\<rparr>
   = Inr \<lparr>dp_namespace = None, dp_name = ''MyElement'', dp_module = ''my-element.html'',
          dp_jsdoc = None,
          dp_properties =
            [\<lparr>mb_jsDoc = None, mb_readonly = ''readonly '', mb_type = ''string'',
              mb_params = None, mb_name = ''label''\<rparr>,
             \<lparr>mb_jsDoc = Some [], mb_readonly = [], mb_type = ''MyElement'',
              mb_params = Some [], mb_name = ''new''\<rparr>]\<rparr>"
proof -
  let ?f = "\<lparr>f_kinds = [''element''], f_identifiers = [''my-element''], f_jsdoc = None,
      f_sourceRange = Some ''my-element.html'',
      f_methods = Some
        [\<lparr>m_name = ''open'', m_privacy = ''public'', m_params = Some [], m_return = None,
          m_jsdoc = Some \<lparr>jd_description = Some [], jd_tags = Some []\<rparr>\<rparr>,
         \<lparr>m_name = ''_close'', m_privacy = ''protected'', m_params = Some [], m_return = None,
          m_jsdoc = Some \<lparr>jd_description = Some [], jd_tags = Some []\<rparr>\<rparr>],
      f_properties = Some
        [\<lparr>pr_name = ''label'', pr_privacy = ''public'', pr_type = Some ''string'',
          pr_jsdoc = Some \<lparr>jd_description = Some [], jd_tags = Some []\<rparr>\<rparr>,
         \<lparr>pr_name = ''_state'', pr_privacy = ''private'', pr_type = Some ''Object'',
          pr_jsdoc = Some \<lparr>jd_description = Some [], jd_tags = Some []\<rparr>\<rparr>,
         \<lparr>pr_name = ''cond'', pr_privacy = ''public'', pr_type = Some ''Conditional'',
          pr_jsdoc = Some \<lparr>jd_description = Some [], jd_tags = Some []\<rparr>\<rparr>]\<rparr>"
  let ?e = "\<lparr>d_namespace = None, d_name = ''MyElement'',
          d_jsDoc = \<lparr>jd_description = None, jd_tags = None\<rparr>,
          d_kinds = [''element''], d_fileName = ''my-element.html'',
          d_module = ''my-element.html'',
          d_methods = Some [''\<newline>    open();''],
          d_properties = Some [''\<newline>    label: string;'']\<rparr>"
  let ?g = "\<lparr>g_kinds = [''element''], g_className = None, g_tagName = Some ''my-element'',
      g_sourceRange = Some ''my-element.html'', g_description = None,
      g_properties = Some
        [\<lparr>pp_name = ''label'', pp_private = False, pp_type = Some ''string'', pp_readOnly = True,
          pp_params = None, pp_description = None\<rparr>,
         \<lparr>pp_name = ''_state'', pp_private = True, pp_type = Some ''Object'', pp_readOnly = False,
          pp_params = None, pp_description = None\<rparr>]\<rparr>"
  let ?e' = "\<lparr>dp_namespace = None, dp_name = ''MyElement'', dp_module = ''my-element.html'',
          dp_jsdoc = None,
          dp_properties =
            [\<lparr>mb_jsDoc = None, mb_readonly = ''readonly '', mb_type = ''string'',
              mb_params = None, mb_name = ''label''\<rparr>,
             \<lparr>mb_jsDoc = Some [], mb_readonly = [], mb_type = ''MyElement'',
              mb_params = Some [], mb_name = ''new''\<rparr>]\<rparr>"
  have h1: "getFeatureDetails_p1 ?f = Inr ?e" by code_simp
  have h2: "getFeatureDetails_p0 ?g = Inr ?e'" by code_simp
  from member_filtering [of ?f ?e ?g ?e'] h1 h2 show ?thesis by blast
qed

text \<open>
  Claim C7 as stated fails in the per-file generator, which has no sentinel: a
  property of type \<open>Conditional\<close> that is not private is retained, with the type
  \<open>any\<close>.
\<close>

theorem conditional_retained_p0:
  "getFeatureDetails_p0
     \<lparr>g_kinds = [''element''], g_className = None, g_tagName = Some ''my-element'',
      g_sourceRange = Some ''my-element.html'', g_description = None,
      g_properties = Some
        [\<lparr>pp_name = ''cond'', pp_private = False, pp_type = Some ''Conditional'',
          pp_readOnly = False, pp_params = None, pp_description = None\<rparr>]\<rparr>
   = Inr \<lparr>dp_namespace = None, dp_name = ''MyElement'', dp_module = ''my-element.html'',
          dp_jsdoc = None,
          dp_properties =
            [\<lparr>mb_jsDoc = None, mb_readonly = [], mb_type = ''any'',
              mb_params = None, mb_name = ''cond''\<rparr>,
             \<lparr>mb_jsDoc = Some [], mb_readonly = [], mb_type = ''MyElement'',
              mb_params = Some [], mb_name = ''new''\<rparr>]\<rparr>"
  by code_simp

subsection \<open>Rendering a behavior\<close>

lemma splitOn_nonempty: "splitOn sep s \<noteq> []"
  by (induction s) (auto split: list.splits)

lemma splitOn_append: "splitOn sep (a @ sep # b) = splitOn sep a @ splitOn sep b"
proof (induction a)
  case Nil
  show ?case by simp
next
  case (Cons c a)
  obtain l ls where "splitOn sep a = l # ls"
    using splitOn_nonempty [of sep a] by (cases "splitOn sep a") auto
  with Cons show ?case by simp
qed

lemma join_append:
  "xs \<noteq> [] \<Longrightarrow> ys \<noteq> [] \<Longrightarrow> join sep (xs @ ys) = join sep xs @ sep @ join sep ys"
  by (induction xs) (auto simp: join_Cons)

lemma indent_append_line:
  "indent t (a @ ''\<newline>'' @ b) = indent t a @ ''\<newline>'' @ indent t b"
  by (simp add: indent_def splitLines_def splitOn_append join_append splitOn_nonempty)

lemma indent_doThing:
  "indent (TabNumber 4) ''doThing();'' = ''    doThing();''"
  "indent (TabNumber 4) ''doThing(): any;'' = ''    doThing(): any;''"
  by code_simp+

lemma parseType_not_void: "parseTypeU t fa \<noteq> ''void''"
  by (auto simp: parseTypeU_def parseType_def knownTypes_def Let_def split: option.splits)

lemma parseType_void: "parseTypeU (Some ''void'') False = ''any''" "parseTypeU None False = ''any''"
  by (simp_all add: parseTypeU_def parseType_def knownTypes_def stripMarkers_def
        stripLeading_def stripTrailing_def)

lemma printMethod_doThing:
  assumes "printMethod m = Inr r" "m_name m = ''doThing''" "m_params m = Some []"
    and "m_return m = None \<or> m_return m = Some None \<or> m_return m = Some (Some ''void'')"
  shows "\<exists>doc. r = doc @ ''\<newline>    doThing()'' @ (if m_return m = None then [] else '': any'') @ '';''"
proof (cases "m_return m = None")
  case True
  with assms obtain JSDoc where "r = indent (TabNumber 4) (JSDoc @ ''\<newline>'' @ ''doThing();'')"
    by (auto simp: printMethod_def split: sum.splits)
  then have "r = indent (TabNumber 4) JSDoc @ ''\<newline>    doThing();''"
    by (simp only: indent_append_line indent_doThing) simp
  with True show ?thesis by simp
next
  case False
  with assms(4) have ret: "m_return m = Some None \<or> m_return m = Some (Some ''void'')" by blast
  with assms obtain JSDoc where
    "r = indent (TabNumber 4) (JSDoc @ ''\<newline>'' @ ''doThing(): any;'')"
    by (auto simp: printMethod_def parseType_void split: sum.splits)
  then have "r = indent (TabNumber 4) JSDoc @ ''\<newline>    doThing(): any;''"
    by (simp only: indent_append_line indent_doThing) simp
  with False show ?thesis by simp
qed

text \<open>
  Claim C2, as the code has it. For a behavior feature whose descriptor is named
  \<open>MyBehavior\<close> and whose only method is the public method \<open>doThing\<close> without
  parameters, which returns nothing (no return record, or a return record without
  type or with the type \<open>void\<close>), the rendered declaration contains the opening
  \<open>export interface MyBehavior {\<close> and ends with the member \<open>doThing();\<close> (without
  a return record) or \<open>doThing(): any;\<close> (with one), the constructor signature
  \<open>new (...args): MyBehavior;\<close>, the closing brace and the companion
  \<open>export const MyBehavior: MyBehavior;\<close>. The type mapper of this generator never
  yields \<open>void\<close>.
\<close>

theorem behavior_rendering:
  "(getFeatureDetails_p1 f = Inr d \<and> d_name d = ''MyBehavior''
    \<and> ''behavior'' \<in> set (f_kinds f) \<and> ''element'' \<notin> set (f_kinds f)
    \<and> f_methods f = Some [m] \<and> m_name m = ''doThing'' \<and> m_privacy m = ''public''
    \<and> m_params m = Some []
    \<and> (m_return m = None \<or> m_return m = Some None \<or> m_return m = Some (Some ''void''))
    \<and> printDeclaration d = Inr out
    \<longrightarrow> sublist ''\<newline>  export interface MyBehavior {'' out
      \<and> suffix (''\<newline>    doThing()'' @ (if m_return m = None then [] else '': any'') @ '';'' @
                ''\<newline>    new (...args): MyBehavior;'' @
                ''\<newline>  }'' @
                ''\<newline>  export const MyBehavior: MyBehavior;'') out)
   \<and> parseTypeU t forceArray \<noteq> ''void''"
proof (intro conjI impI)
  show "parseTypeU t forceArray \<noteq> ''void''" by (rule parseType_not_void)
next
  assume a: "getFeatureDetails_p1 f = Inr d \<and> d_name d = ''MyBehavior''
    \<and> ''behavior'' \<in> set (f_kinds f) \<and> ''element'' \<notin> set (f_kinds f)
    \<and> f_methods f = Some [m] \<and> m_name m = ''doThing'' \<and> m_privacy m = ''public''
    \<and> m_params m = Some []
    \<and> (m_return m = None \<or> m_return m = Some None \<or> m_return m = Some (Some ''void''))
    \<and> printDeclaration d = Inr out"
  then have kinds: "d_kinds d = f_kinds f"
    by (auto simp: getFeatureDetails_p1_def Let_def split: prod.splits option.splits sum.splits)
  from a getFeatureDetails_p1_members [of f d]
  have "renderedMethods (f_methods f) = Inr (d_methods d)"
    by blast
  with a obtain r where r: "printMethod m = Inr r" and ms: "d_methods d = Some [r]"
    by (auto simp: renderedMethods_def publicMethods_def split: sum.splits)
  let ?member = "''\<newline>    doThing()'' @ (if m_return m = None then [] else '': any'') @ '';''"
  from a have "m_name m = ''doThing''" "m_params m = Some []"
    "m_return m = None \<or> m_return m = Some None \<or> m_return m = Some (Some ''void'')"
    by blast+
  with r obtain mdoc where mdoc: "r = mdoc @ ?member"
    using printMethod_doThing by blast
  from a have "''behavior'' \<in> set (f_kinds f)" "''element'' \<notin> set (f_kinds f)"
      "printDeclaration d = Inr out"
    by blast+
  with kinds have "printBehavior d = Inr out"
    by (simp add: printDeclaration_def)
  with ms a obtain doc ps where
    out: "out = indent (TabNumber 2) doc @ ''\<newline>  export interface MyBehavior {'' @
                join ''\<newline>'' ps @ r @
                ''\<newline>    new (...args): MyBehavior;'' @ ''\<newline>  }'' @
                ''\<newline>  export const MyBehavior: MyBehavior;''"
    by (auto simp: printBehavior_def split: sum.splits option.splits)
  show "sublist ''\<newline>  export interface MyBehavior {'' out"
    unfolding out by (rule sublist_appendI)
  have "out = (indent (TabNumber 2) doc @ ''\<newline>  export interface MyBehavior {'' @
                join ''\<newline>'' ps @ mdoc) @
               (?member @
                ''\<newline>    new (...args): MyBehavior;'' @
                ''\<newline>  }'' @
                ''\<newline>  export const MyBehavior: MyBehavior;'')"
    unfolding out mdoc by simp
  then have "suffix (?member @
                ''\<newline>    new (...args): MyBehavior;'' @
                ''\<newline>  }'' @
                ''\<newline>  export const MyBehavior: MyBehavior;'') out"
    by (rule suffixI)
  then show "suffix (''\<newline>    doThing()'' @ (if m_return m = None then [] else '': any'') @ '';'' @
                ''\<newline>    new (...args): MyBehavior;'' @
                ''\<newline>  }'' @
                ''\<newline>  export const MyBehavior: MyBehavior;'') out"
    by (simp only: append_assoc)
qed

theorem behavior_rendering_witness:
  "getFeatureDetails_p1
     \<lparr>f_kinds = [''behavior''], f_identifiers = [''MyBehavior''], f_jsdoc = None,
      f_sourceRange = Some ''my-behavior.html'',
      f_methods = Some
        [\<lparr>m_name = ''doThing'', m_privacy = ''public'', m_params = Some [], m_return = None,
          m_jsdoc = Some \<lparr>jd_description = Some ''Does the thing.'', jd_tags = Some []\<rparr>\<rparr>],
      f_properties = Some []\<rparr>
   = Inr \<lparr>d_namespace = None, d_name = ''MyBehavior'',
          d_jsDoc = \<lparr>jd_description = None, jd_tags = None\<rparr>,
          d_kinds = [''behavior''], d_fileName = ''my-behavior.html'',
          d_module = ''my-behavior.html'',
          d_methods = Some [''\<newline>    /** * Does the thing.\<newline>     */\<newline>    doThing();''],
          d_properties = Some []\<rparr>
   \<and> suffix (''\<newline>    doThing();'' @
             ''\<newline>    new (...args): MyBehavior;'' @
             ''\<newline>  }'' @
             ''\<newline>  export const MyBehavior: MyBehavior;'')
        (''\<newline>  export interface MyBehavior {'' @
         ''\<newline>    /** * Does the thing.\<newline>     */\<newline>    doThing();'' @
         ''\<newline>    new (...args): MyBehavior;'' @
         ''\<newline>  }'' @
         ''\<newline>  export const MyBehavior: MyBehavior;'')"
proof -
  let ?m = "\<lparr>m_name = ''doThing'', m_privacy = ''public'', m_params = Some [], m_return = None,
          m_jsdoc = Some \<lparr>jd_description = Some ''Does the thing.'', jd_tags = Some []\<rparr>\<rparr>"
  let ?f = "\<lparr>f_kinds = [''behavior''], f_identifiers = [''MyBehavior''], f_jsdoc = None,
      f_sourceRange = Some ''my-behavior.html'', f_methods = Some [?m], f_properties = Some []\<rparr>"
  let ?d = "\<lparr>d_namespace = None, d_name = ''MyBehavior'',
          d_jsDoc = \<lparr>jd_description = None, jd_tags = None\<rparr>,
          d_kinds = [''behavior''], d_fileName = ''my-behavior.html'',
          d_module = ''my-behavior.html'',
          d_methods = Some [''\<newline>    /** * Does the thing.\<newline>     */\<newline>    doThing();''],
          d_properties = Some []\<rparr>"
  let ?out = "''\<newline>  export interface MyBehavior {'' @
         ''\<newline>    /** * Does the thing.\<newline>     */\<newline>    doThing();'' @
         ''\<newline>    new (...args): MyBehavior;'' @
         ''\<newline>  }'' @
         ''\<newline>  export const MyBehavior: MyBehavior;''"
  have h1: "getFeatureDetails_p1 ?f = Inr ?d" by code_simp
  have h2: "printDeclaration ?d = Inr ?out" by code_simp
  from behavior_rendering [of ?f ?d ?m ?out] h1 h2 show ?thesis by simp
qed

text \<open>
  Claim C2 as stated fails on the return type: the whole output for the feature of
  scenario B has the member \<open>doThing();\<close>, and a method whose return record names
  the type \<open>void\<close> is rendered with \<open>any\<close>.
\<close>

theorem behavior_method_without_void:
  \<open>potts_p1
     [\<lparr>f_kinds = [''behavior''], f_identifiers = [''MyBehavior''], f_jsdoc = None,
       f_sourceRange = Some ''my-behavior.html'',
       f_methods = Some
         [\<lparr>m_name = ''doThing'', m_privacy = ''public'', m_params = Some [], m_return = None,
           m_jsdoc = Some \<lparr>jd_description = Some [], jd_tags = Some []\<rparr>\<rparr>],
       f_properties = Some []\<rparr>]
   = Inr (Some (''declare module "my-behavior.html" {'' @
                ''\<newline>  export interface MyBehavior {'' @
                ''\<newline>    doThing();'' @
                ''\<newline>    new (...args): MyBehavior;'' @
                ''\<newline>  }'' @
                ''\<newline>  export const MyBehavior: MyBehavior;'' @
                ''\<newline>}\<newline>''))
   \<and> printMethod
        \<lparr>m_name = ''doThing'', m_privacy = ''public'', m_params = Some [],
         m_return = Some (Some ''void''),
         m_jsdoc = Some \<lparr>jd_description = Some [], jd_tags = Some []\<rparr>\<rparr>
       = Inr ''\<newline>    doThing(): any;''\<close>
  by code_simp

subsection \<open>Per-file output\<close>

text \<open>
  Claim C1 at a failing input: the elements \<open>x-el\<close> of the files
  \<open>a/x-el.html\<close> and \<open>b/x-el.html\<close>, and the class \<open>Polymer.XHelper\<close> of the
  file \<open>a/x-el.html\<close>, none with properties. Their module keys are
  \<open>a/x-el.html\<close>, \<open>b/x-el.html\<close> and \<open>a/x-el.html#Polymer\<close>, and all three
  derive the file name \<open>x-el\<close>. The splitter keys its entries by the path before
  \<open>#\<close>: the blocks of the first and third key share an entry and are written
  together, but the block of the second key gets an entry of its own. The run
  issues two writes to the one file \<open>x-el.d.ts\<close>, and neither text holds all
  three blocks.
\<close>

theorem per_file_same_name_two_writes:
  \<open>potts_p0
     [\<lparr>g_kinds = [''element''], g_className = None, g_tagName = Some ''x-el'',
       g_sourceRange = Some ''a/x-el.html'', g_description = None, g_properties = Some []\<rparr>,
      \<lparr>g_kinds = [''element''], g_className = None, g_tagName = Some ''x-el'',
       g_sourceRange = Some ''b/x-el.html'', g_description = None, g_properties = Some []\<rparr>,
      \<lparr>g_kinds = [''element''], g_className = Some ''Polymer.XHelper'', g_tagName = None,
       g_sourceRange = Some ''a/x-el.html'', g_description = None, g_properties = Some []\<rparr>]
   = Inr [(''x-el.d.ts'',
           ''declare module "a/x-el.html" {'' @
           ''\<newline>  export interface XEl {'' @
           ''\<newline>    new(): XEl;'' @
           ''\<newline>  }'' @
           ''\<newline>}'' @
           ''\<newline>\<newline>'' @
           ''declare module "a/x-el.html#Polymer" {'' @
           ''\<newline>  export interface XHelper {'' @
           ''\<newline>    new(): XHelper;'' @
           ''\<newline>  }'' @
           ''\<newline>}'' @
           ''\<newline>''),
          (''x-el.d.ts'',
           ''declare module "b/x-el.html" {'' @
           ''\<newline>  export interface XEl {'' @
           ''\<newline>    new(): XEl;'' @
           ''\<newline>  }'' @
           ''\<newline>}'' @
           ''\<newline>'')]\<close>
  by code_simp

subsection \<open>Exceptions in the classifier\<close>

text \<open>
  Claim C3 at failing inputs. A namespace feature passes the filter of the per-file
  generator and has neither a class name nor a tag name: its classification throws
  and ends the run, and the name derivation of the first generator throws as well. In the single-file generator,
  \<^verbatim>\<open>printJSdoc\<close> throws on a comment that has a tag and no description, hence so
  does the classification of a feature with such a method; and the classification
  of a feature with a property that has no type throws as well. The classifier
  itself builds such a comment for a feature that has a namespace and no
  documentation, and the run then ends in the exception when the feature is
  rendered.
\<close>

theorem classification_throws:
  "filterFeatures_p0
     \<lparr>g_kinds = [''namespace''], g_className = None, g_tagName = None,
      g_sourceRange = Some ''polymer.html'', g_description = None, g_properties = Some []\<rparr>
   \<and> getFeatureDetails_p0
       \<lparr>g_kinds = [''namespace''], g_className = None, g_tagName = None,
        g_sourceRange = Some ''polymer.html'', g_description = None, g_properties = Some []\<rparr>
     = Inl TypeError
   \<and> potts_p0
       [\<lparr>g_kinds = [''namespace''], g_className = None, g_tagName = None,
         g_sourceRange = Some ''polymer.html'', g_description = None, g_properties = Some []\<rparr>]
     = Inl TypeError
   \<and> featureName_idx None None = Inl TypeError
   \<and> printJSdoc
       (Some \<lparr>jd_description = None,
              jd_tags = Some [\<lparr>tag_title = ''polymerBehavior'', tag_type = None,
                               tag_name = None, tag_description = None\<rparr>]\<rparr>)
     = Inl TypeError
   \<and> getFeatureDetails_p1
       \<lparr>f_kinds = [''element''], f_identifiers = [''my-element''], f_jsdoc = None,
        f_sourceRange = Some ''my-element.html'',
        f_methods = Some
          [\<lparr>m_name = ''open'', m_privacy = ''public'', m_params = Some [], m_return = None,
            m_jsdoc = Some \<lparr>jd_description = None,
                             jd_tags = Some [\<lparr>tag_title = ''override'', tag_type = None,
                                              tag_name = None, tag_description = None\<rparr>]\<rparr>\<rparr>],
        f_properties = Some []\<rparr>
     = Inl TypeError
   \<and> getFeatureDetails_p1
       \<lparr>f_kinds = [''element''], f_identifiers = [''my-element''], f_jsdoc = None,
        f_sourceRange = Some ''my-element.html'', f_methods = Some [],
        f_properties = Some
          [\<lparr>pr_name = ''label'', pr_privacy = ''public'', pr_type = None,
            pr_jsdoc = Some \<lparr>jd_description = Some [], jd_tags = Some []\<rparr>\<rparr>]\<rparr>
     = Inl TypeError
   \<and> potts_p1
       [\<lparr>f_kinds = [''element''], f_identifiers = [''Polymer.Foo''], f_jsdoc = None,
         f_sourceRange = Some ''foo.html'', f_methods = Some [], f_properties = Some []\<rparr>]
     = Inl TypeError"
  by code_simp

end
